theory Spec2Isabelle
  imports Main
begin

section \<open>JavaScript values, strings and errors\<close>

text \<open>
  Values that cross the broker: parsed JSON bodies, JWT payloads and the objects handed to
  \<^verbatim>\<open>JSON.stringify\<close>. Numbers are restricted to integers (no claim computes with them).
  An object is an association list; a property is read with the first matching key.
\<close>

datatype js =
    JUndefined
  | JNull
  | JBool bool
  | JNum int
  | JStr string
  | JArr "js list"
  | JObj "(string \<times> js) list"

text \<open>Every value thrown in the sources is an \<^verbatim>\<open>Error\<close> (or a subclass) read only through
  \<^verbatim>\<open>error.message\<close>.\<close>

datatype error = Error string

fun message :: "error \<Rightarrow> string" where
  "message (Error m) = m"

text \<open>JavaScript truthiness, as tested by \<^verbatim>\<open>if (v)\<close>, \<^verbatim>\<open>!v\<close> and \<^verbatim>\<open>a || b\<close>.\<close>

fun truthy :: "js \<Rightarrow> bool" where
  "truthy JUndefined = False"
| "truthy JNull = False"
| "truthy (JBool b) = b"
| "truthy (JNum n) = (n \<noteq> 0)"
| "truthy (JStr s) = (s \<noteq> [])"
| "truthy (JArr xs) = True"
| "truthy (JObj fs) = True"

text \<open>A value of type \<^verbatim>\<open>string | undefined\<close> (an environment variable, a query parameter):
  \<open>None\<close> is \<^verbatim>\<open>undefined\<close>. It is falsy when undefined or empty.\<close>

fun falsy :: "string option \<Rightarrow> bool" where
  "falsy None = True"
| "falsy (Some s) = (s = [])"

text \<open>\<^verbatim>\<open>a || b\<close> on such values.\<close>

fun js_or :: "string option \<Rightarrow> string option \<Rightarrow> string option" where
  "js_or a b = (if falsy a then b else a)"

text \<open>\<^verbatim>\<open>Deno.env.get(k) || d\<close> and \<^verbatim>\<open>process.env.K || d\<close> with a string default.\<close>

fun or_default :: "string option \<Rightarrow> string \<Rightarrow> string" where
  "or_default None d = d"
| "or_default (Some s) d = (if s = [] then d else s)"

text \<open>A \<^verbatim>\<open>string | undefined\<close> interpolated into a template literal.\<close>

fun interpolate :: "string option \<Rightarrow> string" where
  "interpolate None = ''undefined''"
| "interpolate (Some s) = s"

text \<open>\<^verbatim>\<open>s.startsWith(p)\<close> and \<^verbatim>\<open>s.includes(p)\<close>.\<close>

fun startsWith :: "string \<Rightarrow> string \<Rightarrow> bool" where
  "startsWith s [] = True"
| "startsWith [] (p # ps) = False"
| "startsWith (c # cs) (p # ps) = (c = p \<and> startsWith cs ps)"

fun js_includes :: "string \<Rightarrow> string \<Rightarrow> bool" where
  "js_includes [] p = (p = [])"
| "js_includes (c # cs) p = (startsWith (c # cs) p \<or> js_includes cs p)"

text \<open>A number in a template literal: the decimal digits of a natural number.\<close>

fun digit :: "nat \<Rightarrow> char" where
  "digit n = ''0123456789'' ! n"

function show_nat :: "nat \<Rightarrow> string" where
  "show_nat n = (if n < 10 then [digit n] else show_nat (n div 10) @ [digit (n mod 10)])"
  by pat_completeness auto
termination
  by (relation "measure id") auto

declare show_nat.simps [simp del]

text \<open>
  Reading a property \<^verbatim>\<open>v.k\<close> for the keys the brokers read (\<^verbatim>\<open>id\<close>, \<^verbatim>\<open>embedUrl\<close>,
  \<^verbatim>\<open>token\<close>, \<^verbatim>\<open>tokenId\<close>, \<^verbatim>\<open>expiration\<close>, \<^verbatim>\<open>access_token\<close>, \<^verbatim>\<open>value\<close>, \<^verbatim>\<open>name\<close>,
  \<^verbatim>\<open>datasetId\<close>): a TypeError on \<^verbatim>\<open>null\<close> and \<^verbatim>\<open>undefined\<close>, the field of an object,
  \<^verbatim>\<open>undefined\<close> on every other value.
\<close>

fun type_error_read :: "string \<Rightarrow> string \<Rightarrow> error" where
  "type_error_read what k =
     Error (''Cannot read properties of '' @ what @ '' (reading '' @ [CHR 0x27] @ k @ [CHR 0x27] @ '')'')"

fun lookup_field :: "(string \<times> js) list \<Rightarrow> string \<Rightarrow> js" where
  "lookup_field fs k = (case map_of fs k of None \<Rightarrow> JUndefined | Some v \<Rightarrow> v)"

fun get_prop :: "js \<Rightarrow> string \<Rightarrow> error + js" where
  "get_prop JUndefined k = Inl (type_error_read ''undefined'' k)"
| "get_prop JNull k = Inl (type_error_read ''null'' k)"
| "get_prop (JObj fs) k = Inr (lookup_field fs k)"
| "get_prop v k = Inr JUndefined"

text \<open>Sequencing of computations that may throw.\<close>

fun bindE :: "error + 'a \<Rightarrow> ('a \<Rightarrow> error + 'b) \<Rightarrow> error + 'b" where
  "bindE (Inl e) f = Inl e"
| "bindE (Inr a) f = f a"

section \<open>The upstream services and the runtime\<close>

text \<open>
  An HTTP response as the brokers read it: \<^verbatim>\<open>response.status\<close>, \<^verbatim>\<open>response.text()\<close> and
  \<^verbatim>\<open>response.json()\<close>, which throws a SyntaxError on a body that is not JSON.
\<close>

record http_response =
  status :: nat
  text_body :: string
  json_body :: "error + js"

definition ok :: "http_response \<Rightarrow> bool" where
  "ok r = (200 \<le> status r \<and> status r \<le> 299)"

text \<open>The key handed to djwt's \<^verbatim>\<open>verify\<close>: the secret as a string, as decoded bytes, or as an
  imported \<^verbatim>\<open>CryptoKey\<close>.\<close>

datatype jwt_key =
    KeyString string
  | KeyBytes "nat list"
  | KeyCrypto "nat list"

text \<open>
  A call that leaves the broker. The Azure grant is recorded with its URL and form fields,
  the Power BI calls with their URL, the bearer token (the value interpolated after
  \<^verbatim>\<open>Bearer\<close>) and, for the mint, the object given to \<^verbatim>\<open>JSON.stringify\<close>; the MSAL call
  with its scopes.
\<close>

datatype upstream_call =
    GrantCall string "(string \<times> string) list"
  | ReportCall string js
  | MintCall string js js
  | ReportsCall string js
  | MsalCall "string list"

text \<open>
  Everything outside the broker: the answers of the upstream services (a \<^verbatim>\<open>fetch\<close> rejects
  with an error or resolves with a response), the libraries \<^verbatim>\<open>verify\<close>, \<^verbatim>\<open>decode\<close> and
  \<^verbatim>\<open>crypto.subtle.importKey\<close>, MSAL's \<^verbatim>\<open>acquireTokenByClientCredential\<close> (it throws, returns
  \<^verbatim>\<open>null\<close>, or returns a result with its \<^verbatim>\<open>accessToken\<close>), the clock, and which of the two
  promises of \<^verbatim>\<open>Promise.all\<close> settles first when both were sent to the network.
\<close>

record world =
  fetch_grant :: "string \<Rightarrow> (string \<times> string) list \<Rightarrow> error + http_response"
  fetch_report :: "string \<Rightarrow> js \<Rightarrow> error + http_response"
  fetch_mint :: "string \<Rightarrow> js \<Rightarrow> js \<Rightarrow> error + http_response"
  fetch_reports :: "string \<Rightarrow> js \<Rightarrow> error + http_response"
  msal_acquire :: "string list \<Rightarrow> error + string option"
  jwt_verify :: "string \<Rightarrow> jwt_key \<Rightarrow> error + (string \<times> js) list"
  b64_decode :: "string \<Rightarrow> error + nat list"
  import_key :: "nat list \<Rightarrow> error + nat list"
  now_iso :: string
  mint_settles_first :: bool

type_synonym env = "string \<Rightarrow> string option"

text \<open>
  \<^verbatim>\<open>await Promise.all([p, q])\<close>: the pair when both fulfil, otherwise the rejection that
  comes first.
\<close>

fun promise_all2 :: "bool \<Rightarrow> error + 'a \<Rightarrow> error + 'b \<Rightarrow> error + ('a \<times> 'b)" where
  "promise_all2 second_first (Inr a) (Inr b) = Inr (a, b)"
| "promise_all2 second_first (Inl e) (Inr b) = Inl e"
| "promise_all2 second_first (Inr a) (Inl e) = Inl e"
| "promise_all2 second_first (Inl e1) (Inl e2) = Inl (if second_first then e2 else e1)"

section \<open>The function-style broker (supabase/functions/get-powerbi-embed-config/index.ts)\<close>

definition corsHeaders :: "(string \<times> string) list" where
  "corsHeaders =
     [(''Access-Control-Allow-Origin'', ''*''),
      (''Access-Control-Allow-Headers'', ''authorization, x-client-info, apikey, content-type''),
      (''Access-Control-Allow-Methods'', ''POST, GET, OPTIONS, PUT, DELETE'')]"

text \<open>
  Each asynchronous function of the source becomes a function of the world that returns
  the upstream calls it issues, in order, and either the error it throws or its result.
\<close>

text \<open>\<^verbatim>\<open>getAzureAccessToken\<close> (lines 43 to 82).\<close>

definition getAzureAccessToken :: "world \<Rightarrow> env \<Rightarrow> upstream_call list \<times> (error + js)" where
  "getAzureAccessToken w env =
     (let clientId = env ''AZURE_CLIENT_ID'';
          clientSecret = env ''AZURE_CLIENT_SECRET'';
          tenantId = env ''AZURE_TENANT_ID'';
          scope = or_default (env ''POWERBI_SCOPE'') ''https://analysis.windows.net/powerbi/api/.default''
      in if falsy clientId \<or> falsy clientSecret \<or> falsy tenantId
         then ([], Inl (Error ''Missing Azure Service Principal configuration''))
         else
           let tokenUrl = ''https://login.microsoftonline.com/'' @ interpolate tenantId @ ''/oauth2/v2.0/token'';
               body = [(''client_id'', interpolate clientId),
                       (''client_secret'', interpolate clientSecret),
                       (''scope'', scope),
                       (''grant_type'', ''client_credentials'')]
           in ([GrantCall tokenUrl body],
               (case fetch_grant w tokenUrl body of
                  Inl e \<Rightarrow> Inl e
                | Inr response \<Rightarrow>
                    if \<not> ok response
                    then Inl (Error (''Failed to acquire Azure AD token: '' @ show_nat (status response)
                                       @ '' '' @ text_body response))
                    else bindE (json_body response) (\<lambda>tokenData. get_prop tokenData ''access_token''))))"

text \<open>\<^verbatim>\<open>getPowerBIReportDetails\<close> (lines 87 to 111).\<close>

definition getPowerBIReportDetails ::
  "world \<Rightarrow> env \<Rightarrow> js \<Rightarrow> string \<Rightarrow> string \<Rightarrow> upstream_call list \<times> (error + js)" where
  "getPowerBIReportDetails w env accessToken workspaceId reportId =
     (let apiUrl = or_default (env ''POWERBI_API_URL'') ''https://api.powerbi.com'';
          reportUrl = apiUrl @ ''/v1.0/myorg/groups/'' @ workspaceId @ ''/reports/'' @ reportId
      in ([ReportCall reportUrl accessToken],
          (case fetch_report w reportUrl accessToken of
             Inl e \<Rightarrow> Inl e
           | Inr response \<Rightarrow>
               if \<not> ok response
               then Inl (Error (''Power BI API error ('' @ show_nat (status response) @ ''): ''
                                  @ text_body response))
               else json_body response)))"

text \<open>The \<^verbatim>\<open>requestBody\<close> of \<^verbatim>\<open>generatePowerBIEmbedToken\<close> (lines 122 to 134).\<close>

definition requestBody :: "js \<Rightarrow> js" where
  "requestBody userId =
     (if truthy userId
      then JObj [(''accessLevel'', JStr ''View''),
                 (''allowSaveAs'', JBool False),
                 (''identities'', JArr [JObj [(''username'', userId),
                                                (''roles'', JArr []),
                                                (''datasets'', JArr [])]])]
      else JObj [(''accessLevel'', JStr ''View''),
                 (''allowSaveAs'', JBool False)])"

text \<open>\<^verbatim>\<open>generatePowerBIEmbedToken\<close> (lines 116 to 155): the parsed response is returned as it
  is. The \<^verbatim>\<open>userId\<close> it receives is \<^verbatim>\<open>jwtPayload.sub\<close>, any value.\<close>

definition generatePowerBIEmbedToken ::
  "world \<Rightarrow> env \<Rightarrow> js \<Rightarrow> string \<Rightarrow> string \<Rightarrow> js \<Rightarrow> upstream_call list \<times> (error + js)" where
  "generatePowerBIEmbedToken w env accessToken workspaceId reportId userId =
     (let apiUrl = or_default (env ''POWERBI_API_URL'') ''https://api.powerbi.com'';
          embedTokenUrl = apiUrl @ ''/v1.0/myorg/groups/'' @ workspaceId @ ''/reports/'' @ reportId
                            @ ''/GenerateToken''
      in ([MintCall embedTokenUrl accessToken (requestBody userId)],
          (case fetch_mint w embedTokenUrl accessToken (requestBody userId) of
             Inl e \<Rightarrow> Inl e
           | Inr response \<Rightarrow>
               if \<not> ok response
               then Inl (Error (''Failed to generate embed token ('' @ show_nat (status response)
                                  @ ''): '' @ text_body response))
               else json_body response)))"

text \<open>
  \<^verbatim>\<open>verifySupabaseJWT\<close> (lines 160 to 226): the keys handed to \<^verbatim>\<open>verify\<close>, in order, and
  the payload or the error thrown. The first \<^verbatim>\<open>decode\<close> (line 176) stands inside the outer \<^verbatim>\<open>try\<close>, before
  the first attempt.
\<close>

definition verifySupabaseJWT ::
  "world \<Rightarrow> env \<Rightarrow> string option \<Rightarrow> jwt_key list \<times> (error + (string \<times> js) list)" where
  "verifySupabaseJWT w env authHeader =
     (if falsy authHeader \<or> \<not> startsWith (interpolate authHeader) ''Bearer ''
      then ([], Inl (Error ''Missing or invalid Authorization header''))
      else
        let token = drop 7 (interpolate authHeader);
            jwtSecret = env ''_SUPABASE_JWT_SECRET''
        in if falsy jwtSecret
           then ([], Inl (Error ''Missing _SUPABASE_JWT_SECRET environment variable''))
           else
             (case b64_decode w (interpolate jwtSecret) of
                Inl e \<Rightarrow> ([], Inl (Error ''Invalid or expired token''))
              | Inr rawSecretBytes \<Rightarrow>
                  (case jwt_verify w token (KeyString (interpolate jwtSecret)) of
                     Inr payload \<Rightarrow> ([KeyString (interpolate jwtSecret)], Inr payload)
                   | Inl e1 \<Rightarrow>
                       (case jwt_verify w token (KeyBytes rawSecretBytes) of
                          Inr payload \<Rightarrow>
                            ([KeyString (interpolate jwtSecret), KeyBytes rawSecretBytes], Inr payload)
                        | Inl e2 \<Rightarrow>
                            (case import_key w rawSecretBytes of
                               Inl e3 \<Rightarrow>
                                 ([KeyString (interpolate jwtSecret), KeyBytes rawSecretBytes],
                                  Inl (Error ''Invalid or expired token''))
                             | Inr cryptoKey \<Rightarrow>
                                 (case jwt_verify w token (KeyCrypto cryptoKey) of
                                    Inr payload \<Rightarrow>
                                      ([KeyString (interpolate jwtSecret), KeyBytes rawSecretBytes,
                                        KeyCrypto cryptoKey], Inr payload)
                                  | Inl e4 \<Rightarrow>
                                      ([KeyString (interpolate jwtSecret), KeyBytes rawSecretBytes,
                                        KeyCrypto cryptoKey],
                                       Inl (Error ''Invalid or expired token''))))))))"

text \<open>The \<^verbatim>\<open>settings\<close> object both brokers attach.\<close>

definition default_settings :: js where
  "default_settings =
     JObj [(''panes'', JObj [(''filters'', JObj [(''expanded'', JBool False), (''visible'', JBool True)]),
                             (''pageNavigation'', JObj [(''visible'', JBool True)])]),
           (''bars'', JObj [(''statusBar'', JObj [(''visible'', JBool True)])])]"

text \<open>The object literal \<^verbatim>\<open>embedConfig\<close> (lines 269 to 292): its property reads, in order.\<close>

definition embedConfig :: "js \<Rightarrow> js \<Rightarrow> error + js" where
  "embedConfig reportDetails embedTokenData =
     bindE (get_prop reportDetails ''id'') (\<lambda>rid.
     bindE (get_prop reportDetails ''embedUrl'') (\<lambda>url.
     bindE (get_prop embedTokenData ''token'') (\<lambda>tok.
     bindE (get_prop embedTokenData ''tokenId'') (\<lambda>tid.
     bindE (get_prop embedTokenData ''expiration'') (\<lambda>exp.
       Inr (JObj [(''type'', JStr ''report''),
                  (''id'', rid),
                  (''embedUrl'', url),
                  (''accessToken'', tok),
                  (''tokenId'', tid),
                  (''expiration'', exp),
                  (''settings'', default_settings)]))))))"

text \<open>
  Lines 263 to 292: both calls are issued, report details first, then \<^verbatim>\<open>Promise.all\<close> is
  awaited and the configuration built.
\<close>

definition assemble ::
  "world \<Rightarrow> env \<Rightarrow> js \<Rightarrow> string \<Rightarrow> string \<Rightarrow> js \<Rightarrow> upstream_call list \<times> (error + js)" where
  "assemble w env azureAccessToken workspaceId reportId userId =
     (let p = getPowerBIReportDetails w env azureAccessToken workspaceId reportId;
          q = generatePowerBIEmbedToken w env azureAccessToken workspaceId reportId userId
      in (fst p @ fst q,
          bindE (promise_all2 (mint_settles_first w) (snd p) (snd q))
            (\<lambda>(reportDetails, embedTokenData). embedConfig reportDetails embedTokenData)))"

text \<open>
  What the handler reads of a \<^verbatim>\<open>Request\<close>: its method and \<^verbatim>\<open>req.headers.get('Authorization')\<close>
  (\<open>None\<close> is \<^verbatim>\<open>null\<close>). What it builds as a \<^verbatim>\<open>Response\<close>: the status, the headers and
  the body, \<open>None\<close> for the \<^verbatim>\<open>null\<close> body of the pre-flight answer, otherwise the value
  handed to \<^verbatim>\<open>JSON.stringify\<close>.
\<close>

record request =
  req_method :: string
  req_authorization :: "string option"

record response =
  resp_status :: nat
  resp_headers :: "(string \<times> string) list"
  resp_body :: "js option"

text \<open>The body of the handler's \<^verbatim>\<open>try\<close> block (lines 238 to 292).\<close>

definition try_block :: "world \<Rightarrow> env \<Rightarrow> request \<Rightarrow> upstream_call list \<times> (error + js)" where
  "try_block w env req =
     (let authHeader = req_authorization req
      in case snd (verifySupabaseJWT w env (Some (or_default authHeader []))) of
           Inl e \<Rightarrow> ([], Inl e)
         | Inr jwtPayload \<Rightarrow>
             let userId = lookup_field jwtPayload ''sub'';
                 workspaceId = env ''POWERBI_WORKSPACE_ID'';
                 reportId = env ''POWERBI_REPORT_ID''
             in if falsy workspaceId \<or> falsy reportId
                then ([], Inl (Error ''Missing Power BI workspace or report configuration''))
                else
                  (case getAzureAccessToken w env of
                     (c1, Inl e) \<Rightarrow> (c1, Inl e)
                   | (c1, Inr azureAccessToken) \<Rightarrow>
                       let a = assemble w env azureAccessToken (interpolate workspaceId)
                                 (interpolate reportId) userId
                       in (c1 @ fst a, snd a)))"

text \<open>The status chosen in the \<^verbatim>\<open>catch\<close> block (lines 313 and 314).\<close>

definition statusCode :: "string \<Rightarrow> nat" where
  "statusCode msg =
     (if js_includes msg ''Invalid or expired token'' then 401
      else if js_includes msg ''Missing'' then 400 else 500)"

definition json_headers :: "(string \<times> string) list" where
  "json_headers = corsHeaders @ [(''Content-Type'', ''application/json'')]"

definition success_envelope :: "world \<Rightarrow> js \<Rightarrow> js" where
  "success_envelope w d =
     JObj [(''success'', JBool True), (''data'', d), (''timestamp'', JStr (now_iso w))]"

definition error_envelope :: "world \<Rightarrow> error \<Rightarrow> js" where
  "error_envelope w e =
     JObj [(''success'', JBool False), (''error'', JStr (message e)), (''timestamp'', JStr (now_iso w))]"

text \<open>The handler given to \<^verbatim>\<open>serve\<close>: the response and the upstream calls issued, in order.
  A \<^verbatim>\<open>Response\<close> built without a status has status 200.\<close>

definition serve :: "world \<Rightarrow> env \<Rightarrow> request \<Rightarrow> response \<times> upstream_call list" where
  "serve w env req =
     (if req_method req = ''OPTIONS''
      then (\<lparr>resp_status = 200, resp_headers = corsHeaders, resp_body = None\<rparr>, [])
      else
        (case try_block w env req of
           (calls, Inr cfg) \<Rightarrow>
             (\<lparr>resp_status = 200, resp_headers = json_headers,
               resp_body = Some (success_envelope w cfg)\<rparr>, calls)
         | (calls, Inl e) \<Rightarrow>
             (\<lparr>resp_status = statusCode (message e), resp_headers = json_headers,
               resp_body = Some (error_envelope w e)\<rparr>, calls)))"

section \<open>The route-style broker (packages/token-api)\<close>

text \<open>The part of \<^verbatim>\<open>config\<close> (config.js) that the embed routes read.\<close>

record config =
  powerbi_workspaceId :: "string option"
  powerbi_reportId :: "string option"
  powerbi_apiUrl :: string
  powerbi_scope :: string

definition load_config :: "env \<Rightarrow> config" where
  "load_config penv =
     \<lparr>powerbi_workspaceId = penv ''POWERBI_WORKSPACE_ID'',
      powerbi_reportId = penv ''POWERBI_REPORT_ID'',
      powerbi_apiUrl = or_default (penv ''POWERBI_API_URL'') ''https://api.powerbi.com'',
      powerbi_scope = or_default (penv ''POWERBI_SCOPE'')
                        ''https://analysis.windows.net/powerbi/api/.default''\<rparr>"

text \<open>\<^verbatim>\<open>AuthService.getAccessToken\<close> (authService.js): every failure is rethrown as
  \<^verbatim>\<open>Authentication failed: ...\<close>.\<close>

definition getAccessToken :: "world \<Rightarrow> config \<Rightarrow> upstream_call list \<times> (error + string)" where
  "getAccessToken w cfg =
     ([MsalCall [powerbi_scope cfg]],
      (case msal_acquire w [powerbi_scope cfg] of
         Inl e \<Rightarrow> Inl (Error (''Authentication failed: '' @ message e))
       | Inr None \<Rightarrow> Inl (Error (''Authentication failed: '' @ ''Failed to acquire access token''))
       | Inr (Some accessToken) \<Rightarrow>
           if accessToken = []
           then Inl (Error (''Authentication failed: '' @ ''Failed to acquire access token''))
           else Inr accessToken))"

text \<open>\<^verbatim>\<open>PowerBIService.generateEmbedToken\<close> (powerbiService.js, lines 17 to 57). A rejection
  before the \<^verbatim>\<open>fetch\<close> issues no call.\<close>

definition generateEmbedToken ::
  "world \<Rightarrow> config \<Rightarrow> string \<Rightarrow> string option \<Rightarrow> string option
     \<Rightarrow> upstream_call list \<times> (error + js)" where
  "generateEmbedToken w cfg accessToken reportId workspaceId =
     (let targetReportId = js_or reportId (powerbi_reportId cfg);
          targetWorkspaceId = js_or workspaceId (powerbi_workspaceId cfg)
      in if falsy targetReportId \<or> falsy targetWorkspaceId
         then ([], Inl (Error ''Report ID and Workspace ID are required''))
         else
           let embedTokenUrl = powerbi_apiUrl cfg @ ''/v1.0/myorg/groups/'' @ interpolate targetWorkspaceId
                                 @ ''/reports/'' @ interpolate targetReportId @ ''/GenerateToken'';
               requestBody = JObj [(''accessLevel'', JStr ''View''), (''allowSaveAs'', JBool False)]
           in ([MintCall embedTokenUrl (JStr accessToken) requestBody],
               (case fetch_mint w embedTokenUrl (JStr accessToken) requestBody of
                  Inl e \<Rightarrow> Inl e
                | Inr response \<Rightarrow>
                    if \<not> ok response
                    then Inl (Error (''Power BI API error ('' @ show_nat (status response) @ ''): ''
                                       @ text_body response))
                    else json_body response)))"

text \<open>\<^verbatim>\<open>PowerBIService.getReportDetails\<close> (lines 66 to 96): no check of the ids.\<close>

definition getReportDetails ::
  "world \<Rightarrow> config \<Rightarrow> string \<Rightarrow> string option \<Rightarrow> string option
     \<Rightarrow> upstream_call list \<times> (error + js)" where
  "getReportDetails w cfg accessToken reportId workspaceId =
     (let targetReportId = js_or reportId (powerbi_reportId cfg);
          targetWorkspaceId = js_or workspaceId (powerbi_workspaceId cfg);
          reportUrl = powerbi_apiUrl cfg @ ''/v1.0/myorg/groups/'' @ interpolate targetWorkspaceId
                        @ ''/reports/'' @ interpolate targetReportId
      in ([ReportCall reportUrl (JStr accessToken)],
          (case fetch_report w reportUrl (JStr accessToken) of
             Inl e \<Rightarrow> Inl e
           | Inr response \<Rightarrow>
               if \<not> ok response
               then Inl (Error (''Power BI API error ('' @ show_nat (status response) @ ''): ''
                                  @ text_body response))
               else json_body response)))"

text \<open>
  \<^verbatim>\<open>PowerBIService.getEmbedConfig\<close> (lines 104 to 148). The object literal is the one of the
  function-style broker. A mint that rejects without a network call settles before the
  report fetch can.
\<close>

definition getEmbedConfig ::
  "world \<Rightarrow> config \<Rightarrow> string option \<Rightarrow> string option \<Rightarrow> upstream_call list \<times> (error + js)" where
  "getEmbedConfig w cfg reportId workspaceId =
     (case getAccessToken w cfg of
        (c1, Inl e) \<Rightarrow> (c1, Inl e)
      | (c1, Inr accessToken) \<Rightarrow>
          let p = getReportDetails w cfg accessToken reportId workspaceId;
              q = generateEmbedToken w cfg accessToken reportId workspaceId
          in (c1 @ fst p @ fst q,
              bindE (promise_all2 (fst q = [] \<or> mint_settles_first w) (snd p) (snd q))
                (\<lambda>(reportDetails, embedTokenData). embedConfig reportDetails embedTokenData)))"

text \<open>\<^verbatim>\<open>xs.map(f)\<close> with an \<open>f\<close> that may throw.\<close>

fun mapE :: "('a \<Rightarrow> error + 'b) \<Rightarrow> 'a list \<Rightarrow> error + 'b list" where
  "mapE f [] = Inr []"
| "mapE f (x # xs) = bindE (f x) (\<lambda>y. bindE (mapE f xs) (\<lambda>ys. Inr (y # ys)))"

text \<open>\<^verbatim>\<open>PowerBIService.listReports\<close> (lines 155 to 184): \<^verbatim>\<open>data.value.length\<close> is read for the
  log line (the read throws on \<^verbatim>\<open>undefined\<close> and \<^verbatim>\<open>null\<close>; its value is not used), then
  \<^verbatim>\<open>data.value\<close> is returned.\<close>

definition listReports :: "world \<Rightarrow> config \<Rightarrow> string option \<Rightarrow> upstream_call list \<times> (error + js)" where
  "listReports w cfg workspaceId =
     (let targetWorkspaceId = js_or workspaceId (powerbi_workspaceId cfg)
      in case getAccessToken w cfg of
           (c1, Inl e) \<Rightarrow> (c1, Inl e)
         | (c1, Inr accessToken) \<Rightarrow>
             let reportsUrl = powerbi_apiUrl cfg @ ''/v1.0/myorg/groups/'' @ interpolate targetWorkspaceId
                                @ ''/reports''
             in (c1 @ [ReportsCall reportsUrl (JStr accessToken)],
                 (case fetch_reports w reportsUrl (JStr accessToken) of
                    Inl e \<Rightarrow> Inl e
                  | Inr response \<Rightarrow>
                      if \<not> ok response
                      then Inl (Error (''Power BI API error ('' @ show_nat (status response) @ ''): ''
                                         @ text_body response))
                      else bindE (json_body response) (\<lambda>data.
                           bindE (get_prop data ''value'') (\<lambda>v.
                           bindE (get_prop v ''length'') (\<lambda>n. Inr v))))))"

text \<open>
  An Express request as the embed routes see it: the Authorization header, the query
  parameters and the fields of the JSON body that POST /config reads (restricted to
  strings, and to an object for \<^verbatim>\<open>settings\<close>).
\<close>

record express_request =
  ex_authorization :: "string option"
  ex_query :: "string \<Rightarrow> string option"
  ex_body_reportId :: "string option"
  ex_body_workspaceId :: "string option"
  ex_body_settings :: "(string \<times> js) list option"

text \<open>What \<^verbatim>\<open>res.status(s).json(v)\<close> sends; \<^verbatim>\<open>res.json(v)\<close> alone sends status 200.\<close>

record express_response =
  ex_status :: nat
  ex_json :: js

text \<open>GET /api/embed/config (embedRoutes.js, lines 10 to 30).\<close>

definition router_get_config ::
  "world \<Rightarrow> config \<Rightarrow> express_request \<Rightarrow> express_response \<times> upstream_call list" where
  "router_get_config w cfg req =
     (let reportId = ex_query req ''reportId'';
          workspaceId = ex_query req ''workspaceId''
      in case getEmbedConfig w cfg reportId workspaceId of
           (calls, Inr embedConf) \<Rightarrow>
             (\<lparr>ex_status = 200, ex_json = success_envelope w embedConf\<rparr>, calls)
         | (calls, Inl e) \<Rightarrow>
             (\<lparr>ex_status = 500, ex_json = error_envelope w e\<rparr>, calls))"

text \<open>
  GET /api/embed/token (lines 36 to 65). embedRoutes.js imports \<^verbatim>\<open>express\<close> and
  \<^verbatim>\<open>powerbiService\<close> only, so the reference to \<^verbatim>\<open>authService\<close> on line 43 throws a
  ReferenceError before any call is made, and the \<^verbatim>\<open>catch\<close> block answers.
\<close>

definition router_get_token ::
  "world \<Rightarrow> config \<Rightarrow> express_request \<Rightarrow> express_response \<times> upstream_call list" where
  "router_get_token w cfg req =
     (let reportId = ex_query req ''reportId'';
          workspaceId = ex_query req ''workspaceId''
      in (\<lparr>ex_status = 500, ex_json = error_envelope w (Error ''authService is not defined'')\<rparr>, []))"

text \<open>The object built for each report by GET /api/embed/reports.\<close>

definition report_summary :: "js \<Rightarrow> error + js" where
  "report_summary report =
     bindE (get_prop report ''id'') (\<lambda>rid.
     bindE (get_prop report ''name'') (\<lambda>nm.
     bindE (get_prop report ''embedUrl'') (\<lambda>url.
     bindE (get_prop report ''datasetId'') (\<lambda>ds.
       Inr (JObj [(''id'', rid), (''name'', nm), (''embedUrl'', url), (''datasetId'', ds)])))))"

text \<open>GET /api/embed/reports (lines 71 to 97): \<^verbatim>\<open>reports.map\<close> is a function on arrays only.\<close>

definition router_get_reports ::
  "world \<Rightarrow> config \<Rightarrow> express_request \<Rightarrow> express_response \<times> upstream_call list" where
  "router_get_reports w cfg req =
     (let workspaceId = ex_query req ''workspaceId''
      in case listReports w cfg workspaceId of
           (calls, Inl e) \<Rightarrow> (\<lparr>ex_status = 500, ex_json = error_envelope w e\<rparr>, calls)
         | (calls, Inr reports) \<Rightarrow>
             (case reports of
                JArr xs \<Rightarrow>
                  (case mapE report_summary xs of
                     Inl e \<Rightarrow> (\<lparr>ex_status = 500, ex_json = error_envelope w e\<rparr>, calls)
                   | Inr ys \<Rightarrow>
                       (\<lparr>ex_status = 200,
                         ex_json = JObj [(''success'', JBool True), (''data'', JArr ys),
                                         (''count'', JNum (int (length xs))),
                                         (''timestamp'', JStr (now_iso w))]\<rparr>, calls))
              | _ \<Rightarrow>
                  (\<lparr>ex_status = 500,
                    ex_json = error_envelope w (Error ''reports.map is not a function'')\<rparr>, calls)))"

text \<open>\<^verbatim>\<open>{ ...a, ...b }\<close> on objects: the keys of \<open>a\<close> in order, overwritten by \<open>b\<close>, then the
  new keys of \<open>b\<close>.\<close>

fun set_field :: "string \<Rightarrow> js \<Rightarrow> (string \<times> js) list \<Rightarrow> (string \<times> js) list" where
  "set_field k v [] = [(k, v)]"
| "set_field k v ((k', v') # fs) = (if k = k' then (k, v) # fs else (k', v') # set_field k v fs)"

fun spread :: "(string \<times> js) list \<Rightarrow> (string \<times> js) list \<Rightarrow> (string \<times> js) list" where
  "spread a [] = a"
| "spread a ((k, v) # b) = spread (set_field k v a) b"

text \<open>The fields of the object spread from \<^verbatim>\<open>embedConfig.settings\<close>.\<close>

fun own_fields :: "js \<Rightarrow> (string \<times> js) list" where
  "own_fields (JObj fs) = fs"
| "own_fields v = []"

text \<open>POST /api/embed/config (lines 103 to 137).\<close>

definition router_post_config ::
  "world \<Rightarrow> config \<Rightarrow> express_request \<Rightarrow> express_response \<times> upstream_call list" where
  "router_post_config w cfg req =
     (let reportId = ex_body_reportId req;
          workspaceId = ex_body_workspaceId req;
          settings = ex_body_settings req
      in if falsy reportId \<or> falsy workspaceId
         then (\<lparr>ex_status = 400,
                 ex_json = JObj [(''success'', JBool False),
                                 (''error'', JStr ''reportId and workspaceId are required''),
                                 (''timestamp'', JStr (now_iso w))]\<rparr>, [])
         else
           (case getEmbedConfig w cfg reportId workspaceId of
              (calls, Inl e) \<Rightarrow> (\<lparr>ex_status = 500, ex_json = error_envelope w e\<rparr>, calls)
            | (calls, Inr embedConf) \<Rightarrow>
                let merged =
                      (case settings of
                         None \<Rightarrow> embedConf
                       | Some s \<Rightarrow>
                           JObj (set_field ''settings''
                                   (JObj (spread (own_fields (lookup_field (own_fields embedConf) ''settings'')) s))
                                   (own_fields embedConf)))
                in (\<lparr>ex_status = 200, ex_json = success_envelope w merged\<rparr>, calls)))"

section \<open>The response validation of the second function-style variant\<close>

text \<open>
  The variant of the function-style broker that authenticates through the Supabase client
  validates the parsed mint response before returning it:
  \<^verbatim>\<open>if (!embedTokenData || typeof embedTokenData.token !== 'string' || ...) throw new Error(...)\<close>.
\<close>

fun is_string :: "js \<Rightarrow> bool" where
  "is_string (JStr s) = True"
| "is_string v = False"

definition validate_embed_token_data :: "js \<Rightarrow> error + js" where
  "validate_embed_token_data embedTokenData =
     (if \<not> truthy embedTokenData
         \<or> \<not> (case get_prop embedTokenData ''token'' of Inr v \<Rightarrow> is_string v | Inl e \<Rightarrow> False)
         \<or> \<not> (case get_prop embedTokenData ''tokenId'' of Inr v \<Rightarrow> is_string v | Inl e \<Rightarrow> False)
         \<or> \<not> (case get_prop embedTokenData ''expiration'' of Inr v \<Rightarrow> is_string v | Inl e \<Rightarrow> False)
      then Inl (Error (''Power BI embed token response is missing expected '' @ [CHR 0x22] @ ''token''
                         @ [CHR 0x22] @ '', '' @ [CHR 0x22] @ ''tokenId'' @ [CHR 0x22] @ '', or ''
                         @ [CHR 0x22] @ ''expiration'' @ [CHR 0x22] @ '' properties''))
      else Inr embedTokenData)"

section \<open>Concrete environments and upstreams\<close>

definition demo_env :: env where
  "demo_env =
     map_of [(''_SUPABASE_JWT_SECRET'', ''c2VjcmV0''),
             (''POWERBI_WORKSPACE_ID'', ''w1''),
             (''POWERBI_REPORT_ID'', ''r1''),
             (''AZURE_CLIENT_ID'', ''client''),
             (''AZURE_CLIENT_SECRET'', ''hunter2''),
             (''AZURE_TENANT_ID'', ''tenant'')]"

definition demo_report :: js where
  "demo_report = JObj [(''id'', JStr ''r1''), (''embedUrl'', JStr ''https://x''), (''datasetId'', JStr ''d1'')]"

definition demo_token :: js where
  "demo_token =
     JObj [(''token'', JStr ''t1''), (''tokenId'', JStr ''k1''),
           (''expiration'', JStr ''2099-01-01T00:00:00Z'')]"

definition json_response :: "nat \<Rightarrow> string \<Rightarrow> js \<Rightarrow> http_response" where
  "json_response s t v = \<lparr>status = s, text_body = t, json_body = Inr v\<rparr>"

text \<open>
  A world in which every upstream answers 200, the session token \<^verbatim>\<open>good\<close> verifies under
  the imported key only, and the secret decodes to the bytes of \<^verbatim>\<open>secret\<close>.
\<close>

definition demo_world :: world where
  "demo_world =
     \<lparr>fetch_grant = (\<lambda>url body. Inr (json_response 200 [] (JObj [(''access_token'', JStr ''aad''),
                                        (''token_type'', JStr ''Bearer''), (''expires_in'', JNum 3599)]))),
      fetch_report = (\<lambda>url tok. Inr (json_response 200 [] demo_report)),
      fetch_mint = (\<lambda>url tok body. Inr (json_response 200 [] demo_token)),
      fetch_reports = (\<lambda>url tok. Inr (json_response 200 [] (JObj [(''value'', JArr [demo_report])]))),
      msal_acquire = (\<lambda>scopes. Inr (Some ''aad'')),
      jwt_verify = (\<lambda>token key.
         if token = ''good'' \<and> key = KeyCrypto [115, 101, 99, 114, 101, 116]
         then Inr [(''sub'', JStr ''u1''), (''email'', JStr ''u1@example.org'')]
         else Inl (Error ''The jwt could not be verified'')),
      b64_decode = (\<lambda>s. if s = ''c2VjcmV0'' then Inr [115, 101, 99, 114, 101, 116]
                         else Inl (Error ''Failed to decode base64'')),
      import_key = (\<lambda>bytes. Inr bytes),
      now_iso = ''2026-01-01T00:00:00.000Z'',
      mint_settles_first = False\<rparr>"

definition demo_config :: config where
  "demo_config = load_config demo_env"

definition demo_request :: request where
  "demo_request = \<lparr>req_method = ''POST'', req_authorization = Some ''Bearer good''\<rparr>"

definition demo_express_request :: express_request where
  "demo_express_request =
     \<lparr>ex_authorization = None, ex_query = (\<lambda>k. None), ex_body_reportId = None,
      ex_body_workspaceId = None, ex_body_settings = None\<rparr>"

text \<open>The same world with a mint response that lacks \<^verbatim>\<open>tokenId\<close>.\<close>

definition partial_mint_world :: world where
  "partial_mint_world =
     demo_world\<lparr>fetch_mint := (\<lambda>url tok body.
        Inr (json_response 200 []
               (JObj [(''token'', JStr ''t1''), (''expiration'', JStr ''2099-01-01T00:00:00Z'')])))\<rparr>"

text \<open>The same world with a token endpoint that answers 400 with the given text.\<close>

definition rejected_grant_world :: "string \<Rightarrow> world" where
  "rejected_grant_world t =
     demo_world\<lparr>fetch_grant := (\<lambda>url body.
        Inr \<lparr>status = 400, text_body = t, json_body = Inl (Error ''Unexpected token'')\<rparr>)\<rparr>"

text \<open>
  A configuration under which the route-style server runs: \<^verbatim>\<open>startServer\<close> (server.js) exits
  when \<^verbatim>\<open>validateConfig\<close> reports an error, and a missing POWERBI_WORKSPACE_ID is an error
  while a missing POWERBI_REPORT_ID is a warning only. Here the workspace id is set and the
  report id is not.
\<close>

definition no_report_id_config :: config where
  "no_report_id_config = demo_config\<lparr>powerbi_reportId := None\<rparr>"

text \<open>An environment of the function-style broker with neither id.\<close>

definition no_ids_env :: env where
  "no_ids_env = demo_env(''POWERBI_WORKSPACE_ID'' := None, ''POWERBI_REPORT_ID'' := None)"

section \<open>Observations on the call log\<close>

text \<open>The body of an outbound mint request.\<close>

fun call_body :: "upstream_call \<Rightarrow> js option" where
  "call_body (MintCall url tok body) = Some body"
| "call_body c = None"

text \<open>Which upstream a call goes to.\<close>

datatype call_kind = Grant | ReportFetch | Mint | ReportList | Msal

fun kind_of :: "upstream_call \<Rightarrow> call_kind" where
  "kind_of (GrantCall url body) = Grant"
| "kind_of (ReportCall url tok) = ReportFetch"
| "kind_of (MintCall url tok body) = Mint"
| "kind_of (ReportsCall url tok) = ReportList"
| "kind_of (MsalCall scopes) = Msal"

text \<open>The three keys that \<^verbatim>\<open>verifySupabaseJWT\<close> builds from the secret, in the order tried; the
  third exists when the import succeeds.\<close>

definition candidate_keys :: "world \<Rightarrow> string \<Rightarrow> nat list \<Rightarrow> jwt_key list" where
  "candidate_keys w jwtSecret rawSecretBytes =
     KeyString jwtSecret # KeyBytes rawSecretBytes #
       (case import_key w rawSecretBytes of Inr cryptoKey \<Rightarrow> [KeyCrypto cryptoKey] | Inl e \<Rightarrow> [])"

text \<open>The session token carried by a well-formed header.\<close>

definition bearer_token :: "string option \<Rightarrow> string" where
  "bearer_token authHeader = drop 7 (interpolate authHeader)"

text \<open>A POST /api/embed/config request that names both ids and overrides one setting.\<close>

definition demo_post_request :: express_request where
  "demo_post_request =
     demo_express_request\<lparr>ex_body_reportId := Some ''r1'', ex_body_workspaceId := Some ''w1'',
       ex_body_settings := Some [(''background'', JNum 1)]\<rparr>"

text \<open>The configuration assembled from \<open>demo_report\<close> and \<open>demo_token\<close>.\<close>

definition demo_embed_config :: js where
  "demo_embed_config =
     JObj [(''type'', JStr ''report''), (''id'', JStr ''r1''), (''embedUrl'', JStr ''https://x''),
           (''accessToken'', JStr ''t1''), (''tokenId'', JStr ''k1''),
           (''expiration'', JStr ''2099-01-01T00:00:00Z''),
           (''settings'', default_settings)]"

definition demo_merged_config :: js where
  "demo_merged_config =
     JObj [(''type'', JStr ''report''), (''id'', JStr ''r1''), (''embedUrl'', JStr ''https://x''),
           (''accessToken'', JStr ''t1''), (''tokenId'', JStr ''k1''),
           (''expiration'', JStr ''2099-01-01T00:00:00Z''),
           (''settings'',
            JObj [(''panes'', JObj [(''filters'', JObj [(''expanded'', JBool False),
                                                         (''visible'', JBool True)]),
                                    (''pageNavigation'', JObj [(''visible'', JBool True)])]),
                  (''bars'', JObj [(''statusBar'', JObj [(''visible'', JBool True)])]),
                  (''background'', JNum 1)])]"

section \<open>Basic facts\<close>

lemma embedConfig_objects:
  "embedConfig (JObj rf) (JObj tf) =
     Inr (JObj [(''type'', JStr ''report''),
                (''id'', lookup_field rf ''id''),
                (''embedUrl'', lookup_field rf ''embedUrl''),
                (''accessToken'', lookup_field tf ''token''),
                (''tokenId'', lookup_field tf ''tokenId''),
                (''expiration'', lookup_field tf ''expiration''),
                (''settings'', default_settings)])"
  by (simp add: embedConfig_def)

lemma bindE_Inr_iff: "bindE m f = Inr y \<longleftrightarrow> (\<exists>x. m = Inr x \<and> f x = Inr y)"
  by (cases m) auto

lemma promise_all2_Inr_iff:
  "promise_all2 b p q = Inr z \<longleftrightarrow> (\<exists>x y. p = Inr x \<and> q = Inr y \<and> z = (x, y))"
  by (cases p; cases q) auto

lemma promise_all2_second_fails: "promise_all2 b p (Inl e) = Inl (case p of Inl e1 \<Rightarrow> if b then e else e1 | Inr x \<Rightarrow> e)"
  by (cases p) auto

lemma lookup_set_field_other:
  "k \<noteq> k' \<Longrightarrow> lookup_field (set_field k v fs) k' = lookup_field fs k'"
  by (induction fs) auto

subsection \<open>Substring tests on error messages\<close>

lemma includes_skip:
  assumes "p \<noteq> []" and "hd p \<notin> set a"
  shows "js_includes (a @ b) p = js_includes b p"
  using assms
proof (induction a)
  case Nil
  then show ?case by simp
next
  case (Cons x a)
  then obtain c ps where p: "p = c # ps" by (cases p) auto
  with Cons show ?case by auto
qed

lemma digit_range: "n < 10 \<Longrightarrow> digit n \<in> set ''0123456789''"
proof -
  assume "n < 10"
  then have "n < length ''0123456789''" by simp
  then have "''0123456789'' ! n \<in> set ''0123456789''" by (rule nth_mem)
  then show ?thesis by simp
qed

lemma show_nat_digits: "set (show_nat n) \<subseteq> set ''0123456789''"
proof (induction n rule: show_nat.induct)
  case (1 n)
  show ?case
  proof (cases "n < 10")
    case True
    then show ?thesis using digit_range [of n]
      by (subst show_nat.simps) (simp del: digit.simps)
  next
    case False
    have "n mod 10 < 10" by simp
    from digit_range [OF this] "1" False show ?thesis
      by (subst show_nat.simps) (simp del: digit.simps)
  qed
qed

lemma show_nat_no_letter:
  assumes "c \<notin> set ''0123456789''"
  shows "c \<notin> set (show_nat n)"
  using assms show_nat_digits [of n] by blast

lemma grant_message_Missing:
  "js_includes (''Failed to acquire Azure AD token: '' @ show_nat n @ '' '' @ t) ''Missing''
     = js_includes t ''Missing''"
proof -
  have "CHR ''M'' \<notin> set (show_nat n)"
    by (rule show_nat_no_letter) simp
  then have a: "hd ''Missing'' \<notin> set (''Failed to acquire Azure AD token: '' @ show_nat n @ '' '')"
    by simp
  have "js_includes ((''Failed to acquire Azure AD token: '' @ show_nat n @ '' '') @ t) ''Missing''
     = js_includes t ''Missing''"
    by (rule includes_skip [OF _ a]) simp
  then show ?thesis by (simp del: js_includes.simps)
qed

lemma grant_message_Invalid:
  "js_includes (''Failed to acquire Azure AD token: '' @ show_nat n @ '' '' @ t) ''Invalid or expired token''
     = js_includes t ''Invalid or expired token''"
proof -
  have "CHR ''I'' \<notin> set (show_nat n)"
    by (rule show_nat_no_letter) simp
  then have a: "hd ''Invalid or expired token''
      \<notin> set (''Failed to acquire Azure AD token: '' @ show_nat n @ '' '')"
    by simp
  have "js_includes ((''Failed to acquire Azure AD token: '' @ show_nat n @ '' '') @ t)
          ''Invalid or expired token''
     = js_includes t ''Invalid or expired token''"
    by (rule includes_skip [OF _ a]) simp
  then show ?thesis by (simp del: js_includes.simps)
qed

lemma grant_failure_status:
  assumes "\<not> js_includes t ''Missing''"
  shows "statusCode (''Failed to acquire Azure AD token: '' @ show_nat n @ '' '' @ t)
           = (if js_includes t ''Invalid or expired token'' then 401 else 500)"
  unfolding statusCode_def grant_message_Missing grant_message_Invalid
  using assms by simp

subsection \<open>The steps of the function-style handler\<close>

lemma serve_calls: "snd (serve w env req) = (if req_method req = ''OPTIONS'' then [] else fst (try_block w env req))"
  by (auto simp: serve_def split: prod.splits sum.splits)

lemma serve_error:
  assumes "req_method req \<noteq> ''OPTIONS''" and "snd (try_block w env req) = Inl e"
  shows "fst (serve w env req) =
           \<lparr>resp_status = statusCode (message e), resp_headers = json_headers,
            resp_body = Some (error_envelope w e)\<rparr>"
  using assms by (auto simp: serve_def split: prod.splits sum.splits)

lemma try_block_auth_failure:
  assumes "snd (verifySupabaseJWT w env (Some (or_default (req_authorization req) []))) = Inl e"
  shows "try_block w env req = ([], Inl e)"
  using assms by (simp add: try_block_def)

lemma try_block_config_failure:
  assumes "snd (verifySupabaseJWT w env (Some (or_default (req_authorization req) []))) = Inr payload"
    and "falsy (env ''POWERBI_WORKSPACE_ID'') \<or> falsy (env ''POWERBI_REPORT_ID'')"
  shows "try_block w env req = ([], Inl (Error ''Missing Power BI workspace or report configuration''))"
  using assms by (auto simp: try_block_def Let_def)

lemma try_block_grant_failure:
  assumes "snd (verifySupabaseJWT w env (Some (or_default (req_authorization req) []))) = Inr payload"
    and "\<not> falsy (env ''POWERBI_WORKSPACE_ID'')" and "\<not> falsy (env ''POWERBI_REPORT_ID'')"
    and "snd (getAzureAccessToken w env) = Inl e"
  shows "try_block w env req = (fst (getAzureAccessToken w env), Inl e)"
  using assms by (cases "getAzureAccessToken w env") (auto simp: try_block_def Let_def)

lemma getAzureAccessToken_calls:
  "fst (getAzureAccessToken w env) = [] \<or> (\<exists>url body. fst (getAzureAccessToken w env) = [GrantCall url body])"
  by (simp add: getAzureAccessToken_def Let_def)

lemma grant_rejected:
  assumes "fst (getAzureAccessToken w env) = [GrantCall url body]"
    and "fetch_grant w url body = Inr gr" and "\<not> ok gr"
  shows "snd (getAzureAccessToken w env) =
           Inl (Error (''Failed to acquire Azure AD token: '' @ show_nat (status gr) @ '' '' @ text_body gr))"
  using assms by (auto simp: getAzureAccessToken_def Let_def split: if_splits)

lemma assemble_calls:
  "map kind_of (fst (assemble w env tok ws rid uid)) = [ReportFetch, Mint]"
  by (simp add: assemble_def Let_def getPowerBIReportDetails_def generatePowerBIEmbedToken_def)

lemma try_block_kinds:
  "map kind_of (fst (try_block w env req)) \<in> {[], [Grant], [Grant, ReportFetch, Mint]}"
proof (cases "snd (verifySupabaseJWT w env (Some (or_default (req_authorization req) [])))")
  case (Inl e)
  then show ?thesis by (simp add: try_block_auth_failure)
next
  case (Inr payload)
  show ?thesis
  proof (cases "falsy (env ''POWERBI_WORKSPACE_ID'') \<or> falsy (env ''POWERBI_REPORT_ID'')")
    case True
    with Inr show ?thesis by (simp add: try_block_config_failure)
  next
    case False
    obtain c1 res where g: "getAzureAccessToken w env = (c1, res)"
      by (cases "getAzureAccessToken w env") simp
    from getAzureAccessToken_calls [of w env] g
    have c1: "map kind_of c1 = [] \<or> map kind_of c1 = [Grant]" by auto
    show ?thesis
    proof (cases res)
      case (Inl e)
      with Inr False g c1 show ?thesis
        by (auto simp: try_block_def Let_def)
    next
      case (Inr tok)
      have ne: "c1 \<noteq> []"
        using g Inr by (auto simp: getAzureAccessToken_def Let_def split: if_splits)
      with c1 have "map kind_of c1 = [Grant]" by simp
      with \<open>snd (verifySupabaseJWT w env (Some (or_default (req_authorization req) []))) = Inr payload\<close>
        False g Inr show ?thesis
        by (auto simp: try_block_def Let_def assemble_calls)
    qed
  qed
qed

subsection \<open>The two calls of the assembly\<close>

text \<open>
  Both calls are issued whatever the other one returns; the assembly fails as soon as one
  of them fails, with that call's error, and with the error of the call that settles first
  when both fail.
\<close>

lemma assemble_issues_both_calls:
  "fst (assemble w env tok ws rid uid) =
     fst (getPowerBIReportDetails w env tok ws rid) @ fst (generatePowerBIEmbedToken w env tok ws rid uid)"
  by (simp add: assemble_def Let_def)

lemma assemble_fails_when_a_call_fails:
  assumes "snd (getPowerBIReportDetails w env tok ws rid) = Inl e1
           \<or> snd (generatePowerBIEmbedToken w env tok ws rid uid) = Inl e2"
  shows "\<exists>e. snd (assemble w env tok ws rid uid) = Inl e"
  using assms
  by (cases "snd (getPowerBIReportDetails w env tok ws rid)";
      cases "snd (generatePowerBIEmbedToken w env tok ws rid uid)")
     (auto simp: assemble_def Let_def)

lemma assemble_single_failure:
  "snd (getPowerBIReportDetails w env tok ws rid) = Inl e
     \<Longrightarrow> snd (generatePowerBIEmbedToken w env tok ws rid uid) = Inr t
     \<Longrightarrow> snd (assemble w env tok ws rid uid) = Inl e"
  "snd (getPowerBIReportDetails w env tok ws rid) = Inr r
     \<Longrightarrow> snd (generatePowerBIEmbedToken w env tok ws rid uid) = Inl e
     \<Longrightarrow> snd (assemble w env tok ws rid uid) = Inl e"
  by (simp_all add: assemble_def Let_def)

lemma assemble_double_failure:
  "snd (getPowerBIReportDetails w env tok ws rid) = Inl e1
     \<Longrightarrow> snd (generatePowerBIEmbedToken w env tok ws rid uid) = Inl e2
     \<Longrightarrow> snd (assemble w env tok ws rid uid) = Inl (if mint_settles_first w then e2 else e1)"
  by (simp add: assemble_def Let_def)

subsection \<open>Where a successful result comes from\<close>

lemma embedConfig_expiration:
  assumes "embedConfig r t = Inr cfg"
  shows "get_prop cfg ''expiration'' = get_prop t ''expiration''"
  using assms by (auto simp: embedConfig_def bindE_Inr_iff)

lemma embedConfig_is_object:
  assumes "embedConfig r t = Inr cfg"
  shows "\<exists>fs. cfg = JObj fs"
  using assms by (auto simp: embedConfig_def bindE_Inr_iff)

lemma mint_success_origin:
  assumes "snd (generatePowerBIEmbedToken w env tok ws rid uid) = Inr t"
  shows "\<exists>url body mr. fst (generatePowerBIEmbedToken w env tok ws rid uid) = [MintCall url tok body]
           \<and> fetch_mint w url tok body = Inr mr \<and> json_body mr = Inr t"
  using assms
  by (auto simp: generatePowerBIEmbedToken_def Let_def split: sum.splits if_splits)

lemma route_mint_success_origin:
  assumes "snd (generateEmbedToken w cfg atok r g) = Inr t"
  shows "\<exists>url tok body mr. fst (generateEmbedToken w cfg atok r g) = [MintCall url tok body]
           \<and> fetch_mint w url tok body = Inr mr \<and> json_body mr = Inr t"
  using assms
  by (auto simp: generateEmbedToken_def Let_def split: sum.splits if_splits)

lemma assemble_success:
  assumes "snd (assemble w env tok ws rid uid) = Inr cfg"
  shows "\<exists>url tk body mr t. MintCall url tk body \<in> set (fst (assemble w env tok ws rid uid))
           \<and> fetch_mint w url tk body = Inr mr \<and> json_body mr = Inr t
           \<and> get_prop cfg ''expiration'' = get_prop t ''expiration''"
proof -
  from assms obtain r t where
    t: "snd (generatePowerBIEmbedToken w env tok ws rid uid) = Inr t"
    and c: "embedConfig r t = Inr cfg"
    by (auto simp: assemble_def Let_def bindE_Inr_iff promise_all2_Inr_iff)
  from mint_success_origin [OF t] obtain url body mr where
    "fst (generatePowerBIEmbedToken w env tok ws rid uid) = [MintCall url tok body]"
    "fetch_mint w url tok body = Inr mr" "json_body mr = Inr t"
    by blast
  moreover have "set (fst (generatePowerBIEmbedToken w env tok ws rid uid))
      \<subseteq> set (fst (assemble w env tok ws rid uid))"
    by (simp add: assemble_def Let_def)
  ultimately show ?thesis
    using embedConfig_expiration [OF c] by fastforce
qed

lemma try_block_success:
  assumes "try_block w env req = (calls, Inr cfg)"
  shows "\<exists>url tk body mr t. MintCall url tk body \<in> set calls
           \<and> fetch_mint w url tk body = Inr mr \<and> json_body mr = Inr t
           \<and> get_prop cfg ''expiration'' = get_prop t ''expiration''"
proof -
  from assms obtain c1 tok ws rid uid where
    calls: "calls = c1 @ fst (assemble w env tok ws rid uid)"
    and ok: "snd (assemble w env tok ws rid uid) = Inr cfg"
    by (auto simp: try_block_def Let_def split: sum.splits if_splits prod.splits)
  from assemble_success [OF ok] calls show ?thesis
    by fastforce
qed

lemma serve_success:
  assumes "resp_body (fst (serve w env req)) = Some (success_envelope w cfg)"
  shows "try_block w env req = (snd (serve w env req), Inr cfg)"
  using assms
  by (auto simp: serve_def success_envelope_def error_envelope_def split: if_splits prod.splits sum.splits)

lemma getEmbedConfig_success:
  assumes "getEmbedConfig w c r g = (calls, Inr cfg)"
  shows "\<exists>url tk body mr t. MintCall url tk body \<in> set calls
           \<and> fetch_mint w url tk body = Inr mr \<and> json_body mr = Inr t
           \<and> get_prop cfg ''expiration'' = get_prop t ''expiration''"
proof -
  from assms obtain c1 atok rd t where
    calls: "calls = c1 @ fst (getReportDetails w c atok r g) @ fst (generateEmbedToken w c atok r g)"
    and t: "snd (generateEmbedToken w c atok r g) = Inr t"
    and e: "embedConfig rd t = Inr cfg"
    by (auto simp: getEmbedConfig_def Let_def bindE_Inr_iff promise_all2_Inr_iff
        split: sum.splits prod.splits)
  from route_mint_success_origin [OF t] calls embedConfig_expiration [OF e] show ?thesis
    by fastforce
qed

lemma router_get_config_success:
  assumes "ex_json (fst (router_get_config w c rq)) = success_envelope w cfg"
  shows "getEmbedConfig w c (ex_query rq ''reportId'') (ex_query rq ''workspaceId'')
           = (snd (router_get_config w c rq), Inr cfg)"
  using assms
  by (auto simp: router_get_config_def Let_def success_envelope_def error_envelope_def
      split: prod.splits sum.splits)

lemma router_post_config_success:
  assumes "ex_json (fst (router_post_config w c rq)) = success_envelope w cfg"
  shows "\<exists>cfg0. getEmbedConfig w c (ex_body_reportId rq) (ex_body_workspaceId rq)
           = (snd (router_post_config w c rq), Inr cfg0)
           \<and> get_prop cfg ''expiration'' = get_prop cfg0 ''expiration''"
proof -
  obtain calls res where g: "getEmbedConfig w c (ex_body_reportId rq) (ex_body_workspaceId rq)
      = (calls, res)"
    by (cases "getEmbedConfig w c (ex_body_reportId rq) (ex_body_workspaceId rq)") simp
  have present: "\<not> (falsy (ex_body_reportId rq) \<or> falsy (ex_body_workspaceId rq))"
    using assms by (auto simp: router_post_config_def Let_def success_envelope_def)
  obtain cfg0 where res: "res = Inr cfg0"
    using assms g present
    by (cases res) (auto simp: router_post_config_def Let_def success_envelope_def error_envelope_def)
  have calls: "snd (router_post_config w c rq) = calls"
    using g present res by (simp add: router_post_config_def Let_def)
  obtain r t where "embedConfig r t = Inr cfg0"
    using g res
    by (auto simp: getEmbedConfig_def Let_def bindE_Inr_iff promise_all2_Inr_iff
        split: sum.splits prod.splits)
  then obtain fs where fs: "cfg0 = JObj fs"
    using embedConfig_is_object by blast
  have ne: "''settings'' \<noteq> ''expiration''" by simp
  have "get_prop cfg ''expiration'' = get_prop cfg0 ''expiration''"
  proof (cases "ex_body_settings rq")
    case None
    then show ?thesis
      using assms g present res
      by (simp add: router_post_config_def Let_def success_envelope_def)
  next
    case (Some s)
    then have "cfg = JObj (set_field ''settings''
                 (JObj (spread (own_fields (lookup_field fs ''settings'')) s)) fs)"
      using assms g present res fs
      by (simp add: router_post_config_def Let_def success_envelope_def del: lookup_field.simps)
    then show ?thesis
      using fs lookup_set_field_other [OF ne] by (simp del: lookup_field.simps)
  qed
  then show ?thesis
    using g res calls by simp
qed

subsection \<open>Evaluation on the concrete upstreams\<close>

lemma demo_report_details:
  "snd (getPowerBIReportDetails demo_world demo_env (JStr ''aad'') ''w1'' ''r1'') = Inr demo_report"
  by (simp add: getPowerBIReportDetails_def demo_world_def json_response_def ok_def)

lemma demo_mint:
  "snd (generatePowerBIEmbedToken demo_world demo_env (JStr ''aad'') ''w1'' ''r1'' (JStr ''u1''))
     = Inr demo_token"
  by (simp add: generatePowerBIEmbedToken_def demo_world_def json_response_def ok_def)

lemma demo_access: "snd (getAccessToken demo_world demo_config) = Inr ''aad''"
  by (simp add: getAccessToken_def demo_world_def)

lemma demo_route_report:
  "snd (getReportDetails demo_world demo_config ''aad'' None None) = Inr demo_report"
  by (simp add: getReportDetails_def demo_world_def json_response_def ok_def)

lemma demo_route_mint:
  "snd (generateEmbedToken demo_world demo_config ''aad'' None None) = Inr demo_token"
  by (simp add: generateEmbedToken_def demo_world_def json_response_def ok_def demo_config_def
      load_config_def demo_env_def)

lemma demo_verified:
  "verifySupabaseJWT demo_world demo_env (Some ''Bearer good'') =
     ([KeyString ''c2VjcmV0'', KeyBytes [115, 101, 99, 114, 101, 116],
       KeyCrypto [115, 101, 99, 114, 101, 116]],
      Inr [(''sub'', JStr ''u1''), (''email'', JStr ''u1@example.org'')])"
  by (simp add: verifySupabaseJWT_def demo_world_def demo_env_def)

lemma demo_verified_no_ids:
  "verifySupabaseJWT demo_world no_ids_env (Some ''Bearer good'') =
     ([KeyString ''c2VjcmV0'', KeyBytes [115, 101, 99, 114, 101, 116],
       KeyCrypto [115, 101, 99, 114, 101, 116]],
      Inr [(''sub'', JStr ''u1''), (''email'', JStr ''u1@example.org'')])"
  by (simp add: verifySupabaseJWT_def demo_world_def demo_env_def no_ids_env_def)

lemma demo_rejected_token:
  "verifySupabaseJWT demo_world demo_env (Some ''Bearer forged'') =
     ([KeyString ''c2VjcmV0'', KeyBytes [115, 101, 99, 114, 101, 116],
       KeyCrypto [115, 101, 99, 114, 101, 116]],
      Inl (Error ''Invalid or expired token''))"
  by (simp add: verifySupabaseJWT_def demo_world_def demo_env_def)

lemma rejected_grant_world_verified:
  "verifySupabaseJWT (rejected_grant_world t) demo_env (Some ''Bearer good'') =
     ([KeyString ''c2VjcmV0'', KeyBytes [115, 101, 99, 114, 101, 116],
       KeyCrypto [115, 101, 99, 114, 101, 116]],
      Inr [(''sub'', JStr ''u1''), (''email'', JStr ''u1@example.org'')])"
  by (simp add: verifySupabaseJWT_def demo_world_def demo_env_def rejected_grant_world_def)

lemma rejected_grant_world_calls:
  "fst (getAzureAccessToken (rejected_grant_world t) demo_env) =
     [GrantCall ''https://login.microsoftonline.com/tenant/oauth2/v2.0/token''
         [(''client_id'', ''client''), (''client_secret'', ''hunter2''),
          (''scope'', ''https://analysis.windows.net/powerbi/api/.default''),
          (''grant_type'', ''client_credentials'')]]"
  by (simp add: getAzureAccessToken_def demo_env_def Let_def)

lemma demo_serve:
  "serve demo_world demo_env demo_request =
     (\<lparr>resp_status = 200, resp_headers = json_headers,
       resp_body = Some (success_envelope demo_world demo_embed_config)\<rparr>,
      [GrantCall ''https://login.microsoftonline.com/tenant/oauth2/v2.0/token''
         [(''client_id'', ''client''), (''client_secret'', ''hunter2''),
          (''scope'', ''https://analysis.windows.net/powerbi/api/.default''),
          (''grant_type'', ''client_credentials'')],
       ReportCall ''https://api.powerbi.com/v1.0/myorg/groups/w1/reports/r1'' (JStr ''aad''),
       MintCall ''https://api.powerbi.com/v1.0/myorg/groups/w1/reports/r1/GenerateToken'' (JStr ''aad'')
         (JObj [(''accessLevel'', JStr ''View''), (''allowSaveAs'', JBool False),
                (''identities'', JArr [JObj [(''username'', JStr ''u1''), (''roles'', JArr []),
                                               (''datasets'', JArr [])]])])])"
  by (simp add: serve_def demo_request_def try_block_def verifySupabaseJWT_def demo_env_def
      demo_world_def getAzureAccessToken_def assemble_def getPowerBIReportDetails_def
      generatePowerBIEmbedToken_def json_response_def ok_def embedConfig_def demo_report_def
      demo_token_def requestBody_def demo_embed_config_def Let_def)

lemma demo_router_get_config:
  "router_get_config demo_world demo_config demo_express_request =
     (\<lparr>ex_status = 200, ex_json = success_envelope demo_world demo_embed_config\<rparr>,
      [MsalCall [''https://analysis.windows.net/powerbi/api/.default''],
       ReportCall ''https://api.powerbi.com/v1.0/myorg/groups/w1/reports/r1'' (JStr ''aad''),
       MintCall ''https://api.powerbi.com/v1.0/myorg/groups/w1/reports/r1/GenerateToken'' (JStr ''aad'')
         (JObj [(''accessLevel'', JStr ''View''), (''allowSaveAs'', JBool False)])])"
  by (simp add: router_get_config_def getEmbedConfig_def getAccessToken_def generateEmbedToken_def
      getReportDetails_def demo_world_def demo_config_def load_config_def demo_env_def
      demo_express_request_def Let_def json_response_def ok_def embedConfig_def demo_report_def
      demo_token_def demo_embed_config_def)

lemma demo_router_post_config:
  "router_post_config demo_world demo_config demo_post_request =
     (\<lparr>ex_status = 200, ex_json = success_envelope demo_world demo_merged_config\<rparr>,
      [MsalCall [''https://analysis.windows.net/powerbi/api/.default''],
       ReportCall ''https://api.powerbi.com/v1.0/myorg/groups/w1/reports/r1'' (JStr ''aad''),
       MintCall ''https://api.powerbi.com/v1.0/myorg/groups/w1/reports/r1/GenerateToken'' (JStr ''aad'')
         (JObj [(''accessLevel'', JStr ''View''), (''allowSaveAs'', JBool False)])])"
  by (simp add: router_post_config_def getEmbedConfig_def getAccessToken_def generateEmbedToken_def
      getReportDetails_def demo_world_def demo_config_def load_config_def demo_env_def
      demo_express_request_def demo_post_request_def Let_def json_response_def ok_def
      embedConfig_def demo_report_def demo_token_def demo_merged_config_def default_settings_def)

section \<open>C1: a request without a usable Authorization header\<close>

lemma unusable_header_answer:
  assumes "req_method req \<noteq> ''OPTIONS''"
    and "falsy (req_authorization req) \<or> \<not> startsWith (interpolate (req_authorization req)) ''Bearer ''"
  shows "serve w env req =
           (\<lparr>resp_status = 400, resp_headers = json_headers,
             resp_body = Some (error_envelope w (Error ''Missing or invalid Authorization header''))\<rparr>, [])"
proof -
  have "verifySupabaseJWT w env (Some (or_default (req_authorization req) [])) =
          ([], Inl (Error ''Missing or invalid Authorization header''))"
    using assms(2) by (cases "req_authorization req") (auto simp: verifySupabaseJWT_def)
  then have "try_block w env req = ([], Inl (Error ''Missing or invalid Authorization header''))"
    by (simp add: try_block_def)
  moreover have "statusCode ''Missing or invalid Authorization header'' = 400"
    by (simp add: statusCode_def)
  ultimately show ?thesis
    using assms(1) by (simp add: serve_def)
qed

lemma rejected_token_answer:
  assumes "req_method req \<noteq> ''OPTIONS''"
    and "snd (verifySupabaseJWT w env (Some (or_default (req_authorization req) [])))
           = Inl (Error ''Invalid or expired token'')"
  shows "serve w env req =
           (\<lparr>resp_status = 401, resp_headers = json_headers,
             resp_body = Some (error_envelope w (Error ''Invalid or expired token''))\<rparr>, [])"
proof -
  have "try_block w env req = ([], Inl (Error ''Invalid or expired token''))"
    using assms(2) by (simp add: try_block_def)
  moreover have "statusCode ''Invalid or expired token'' = 401"
    by (simp add: statusCode_def)
  ultimately show ?thesis
    using assms(1) by (simp add: serve_def)
qed

text \<open>
  Claim C1, as amended. Every request of the function-style broker that is not a pre-flight
  and whose Authorization header is missing, empty or does not start with \<^verbatim>\<open>Bearer \<close> is
  answered with the error envelope \<^verbatim>\<open>Missing or invalid Authorization header\<close> and status 400
  (the \<^verbatim>\<open>catch\<close> block gives 400 to a message that contains \<^verbatim>\<open>Missing\<close>), without any
  upstream call. A request whose session token fails verification is answered 401, again
  without any upstream call, and a pre-flight is answered 200 before authentication.
\<close>

theorem unusable_authorization_rejected_before_upstream:
  "(req_method req \<noteq> ''OPTIONS''
      \<and> (falsy (req_authorization req)
           \<or> \<not> startsWith (interpolate (req_authorization req)) ''Bearer '')
    \<longrightarrow> resp_status (fst (serve w env req)) = 400
        \<and> resp_body (fst (serve w env req)) =
            Some (error_envelope w (Error ''Missing or invalid Authorization header''))
        \<and> snd (serve w env req) = [])
   \<and> (req_method req \<noteq> ''OPTIONS''
      \<and> snd (verifySupabaseJWT w env (Some (or_default (req_authorization req) [])))
           = Inl (Error ''Invalid or expired token'')
    \<longrightarrow> resp_status (fst (serve w env req)) = 401 \<and> snd (serve w env req) = [])
   \<and> (req_method req = ''OPTIONS''
    \<longrightarrow> serve w env req = (\<lparr>resp_status = 200, resp_headers = corsHeaders, resp_body = None\<rparr>, []))"
proof (intro conjI impI)
  assume a: "req_method req \<noteq> ''OPTIONS''
      \<and> (falsy (req_authorization req)
           \<or> \<not> startsWith (interpolate (req_authorization req)) ''Bearer '')"
  then have s: "serve w env req =
           (\<lparr>resp_status = 400, resp_headers = json_headers,
             resp_body = Some (error_envelope w (Error ''Missing or invalid Authorization header''))\<rparr>, [])"
    using unusable_header_answer [of req w env] by blast
  show "resp_status (fst (serve w env req)) = 400" by (simp add: s)
  show "resp_body (fst (serve w env req)) =
            Some (error_envelope w (Error ''Missing or invalid Authorization header''))"
    by (simp add: s)
  show "snd (serve w env req) = []" by (simp add: s)
next
  assume a: "req_method req \<noteq> ''OPTIONS''
      \<and> snd (verifySupabaseJWT w env (Some (or_default (req_authorization req) [])))
           = Inl (Error ''Invalid or expired token'')"
  then have s: "serve w env req =
           (\<lparr>resp_status = 401, resp_headers = json_headers,
             resp_body = Some (error_envelope w (Error ''Invalid or expired token''))\<rparr>, [])"
    using rejected_token_answer [of req w env] by blast
  show "resp_status (fst (serve w env req)) = 401" by (simp add: s)
  show "snd (serve w env req) = []" by (simp add: s)
next
  assume "req_method req = ''OPTIONS''"
  then show "serve w env req = (\<lparr>resp_status = 200, resp_headers = corsHeaders, resp_body = None\<rparr>, [])"
    by (simp add: serve_def)
qed

text \<open>
  The claim as stated fails: a GET request that carries no Authorization header is answered
  with status 400, not 401, whatever the environment and the upstreams are (here the
  concrete ones); no upstream call is made.
\<close>

theorem unusable_authorization_rejected_before_upstream_counterexample:
  "resp_status (fst (serve demo_world demo_env \<lparr>req_method = ''GET'', req_authorization = None\<rparr>)) = 400
   \<and> resp_status (fst (serve demo_world demo_env \<lparr>req_method = ''GET'', req_authorization = None\<rparr>))
       \<noteq> 401
   \<and> snd (serve demo_world demo_env \<lparr>req_method = ''GET'', req_authorization = None\<rparr>) = []"
  by (simp add: serve_def try_block_def verifySupabaseJWT_def statusCode_def)

theorem unusable_authorization_rejected_before_upstream_witness:
  "resp_status (fst (serve demo_world demo_env
       \<lparr>req_method = ''GET'', req_authorization = Some ''Basic dXNlcjpwdw==''\<rparr>)) = 400
   \<and> snd (serve demo_world demo_env
       \<lparr>req_method = ''GET'', req_authorization = Some ''Basic dXNlcjpwdw==''\<rparr>) = []
   \<and> resp_status (fst (serve demo_world demo_env
       \<lparr>req_method = ''POST'', req_authorization = Some ''Bearer forged''\<rparr>)) = 401
   \<and> snd (serve demo_world demo_env
       \<lparr>req_method = ''POST'', req_authorization = Some ''Bearer forged''\<rparr>) = []
   \<and> serve demo_world demo_env \<lparr>req_method = ''OPTIONS'', req_authorization = None\<rparr>
       = (\<lparr>resp_status = 200, resp_headers = corsHeaders, resp_body = None\<rparr>, [])"
proof -
  let ?basic = "\<lparr>req_method = ''GET'', req_authorization = Some ''Basic dXNlcjpwdw==''\<rparr>"
  let ?forged = "\<lparr>req_method = ''POST'', req_authorization = Some ''Bearer forged''\<rparr>"
  let ?pre = "\<lparr>req_method = ''OPTIONS'', req_authorization = None\<rparr>"
  have 1: "req_method ?basic \<noteq> ''OPTIONS''" "req_method ?forged \<noteq> ''OPTIONS''"
    "req_method ?pre = ''OPTIONS''" by simp_all
  have 2: "\<not> startsWith (interpolate (req_authorization ?basic)) ''Bearer ''" by simp
  have 3: "snd (verifySupabaseJWT demo_world demo_env (Some (or_default (req_authorization ?forged) [])))
              = Inl (Error ''Invalid or expired token'')"
    by (simp add: verifySupabaseJWT_def demo_world_def demo_env_def)
  note a = unusable_authorization_rejected_before_upstream [where req = ?basic and w = demo_world
      and env = demo_env]
  note b = unusable_authorization_rejected_before_upstream [where req = ?forged and w = demo_world
      and env = demo_env]
  note c = unusable_authorization_rejected_before_upstream [where req = ?pre and w = demo_world
      and env = demo_env]
  from a 1(1) 2 have "resp_status (fst (serve demo_world demo_env ?basic)) = 400
      \<and> snd (serve demo_world demo_env ?basic) = []" by blast
  moreover from b 1(2) 3 have "resp_status (fst (serve demo_world demo_env ?forged)) = 401
      \<and> snd (serve demo_world demo_env ?forged) = []" by blast
  moreover from c 1(3) have "serve demo_world demo_env ?pre
       = (\<lparr>resp_status = 200, resp_headers = corsHeaders, resp_body = None\<rparr>, [])" by blast
  ultimately show ?thesis by blast
qed

section \<open>C2: the route-style broker and the Authorization header\<close>

text \<open>The route-style handlers never call the verification library either.\<close>

lemma services_never_verify:
  "getAccessToken (w\<lparr>jwt_verify := v\<rparr>) c = getAccessToken w c"
  "getReportDetails (w\<lparr>jwt_verify := v\<rparr>) c atok r g = getReportDetails w c atok r g"
  "generateEmbedToken (w\<lparr>jwt_verify := v\<rparr>) c atok r g = generateEmbedToken w c atok r g"
  by (simp_all add: getAccessToken_def getReportDetails_def generateEmbedToken_def Let_def)

lemma getEmbedConfig_never_verifies:
  "getEmbedConfig (w\<lparr>jwt_verify := v\<rparr>) c r g = getEmbedConfig w c r g"
  by (simp add: getEmbedConfig_def services_never_verify split: prod.splits sum.splits)

lemma listReports_never_verifies:
  "listReports (w\<lparr>jwt_verify := v\<rparr>) c g = listReports w c g"
  by (simp add: listReports_def services_never_verify Let_def split: prod.splits sum.splits)

lemma route_style_never_verifies:
  "router_get_config (w\<lparr>jwt_verify := v\<rparr>) c rq = router_get_config w c rq"
  "router_get_token (w\<lparr>jwt_verify := v\<rparr>) c rq = router_get_token w c rq"
  "router_get_reports (w\<lparr>jwt_verify := v\<rparr>) c rq = router_get_reports w c rq"
  by (simp_all add: router_get_config_def router_get_token_def router_get_reports_def
      getEmbedConfig_never_verifies listReports_never_verifies
      success_envelope_def error_envelope_def split: prod.splits sum.splits js.splits)

text \<open>
  Claim C2. The handlers of GET /api/embed/config, GET /api/embed/token and
  GET /api/embed/reports do not depend on the Authorization header: two requests that differ
  in that header only produce the same upstream calls and the same response. In particular
  GET /api/embed/config without any Authorization header answers 200 with the assembled
  embed configuration whenever the token acquisition, the report fetch and the mint succeed.
\<close>

theorem route_style_ignores_authorization:
  "router_get_config w c (rq\<lparr>ex_authorization := a\<rparr>) = router_get_config w c (rq\<lparr>ex_authorization := b\<rparr>)
   \<and> router_get_token w c (rq\<lparr>ex_authorization := a\<rparr>) = router_get_token w c (rq\<lparr>ex_authorization := b\<rparr>)
   \<and> router_get_reports w c (rq\<lparr>ex_authorization := a\<rparr>)
       = router_get_reports w c (rq\<lparr>ex_authorization := b\<rparr>)
   \<and> (snd (getAccessToken w c) = Inr atok
        \<and> snd (getReportDetails w c atok (ex_query rq ''reportId'') (ex_query rq ''workspaceId''))
            = Inr (JObj rf)
        \<and> snd (generateEmbedToken w c atok (ex_query rq ''reportId'') (ex_query rq ''workspaceId''))
            = Inr (JObj tf)
      \<longrightarrow> fst (router_get_config w c (rq\<lparr>ex_authorization := None\<rparr>)) =
            \<lparr>ex_status = 200,
             ex_json = success_envelope w
               (JObj [(''type'', JStr ''report''),
                      (''id'', lookup_field rf ''id''),
                      (''embedUrl'', lookup_field rf ''embedUrl''),
                      (''accessToken'', lookup_field tf ''token''),
                      (''tokenId'', lookup_field tf ''tokenId''),
                      (''expiration'', lookup_field tf ''expiration''),
                      (''settings'', default_settings)])\<rparr>)"
proof (intro conjI impI)
  show "router_get_config w c (rq\<lparr>ex_authorization := a\<rparr>)
      = router_get_config w c (rq\<lparr>ex_authorization := b\<rparr>)"
    by (simp add: router_get_config_def)
  show "router_get_token w c (rq\<lparr>ex_authorization := a\<rparr>)
      = router_get_token w c (rq\<lparr>ex_authorization := b\<rparr>)"
    by (simp add: router_get_token_def)
  show "router_get_reports w c (rq\<lparr>ex_authorization := a\<rparr>)
       = router_get_reports w c (rq\<lparr>ex_authorization := b\<rparr>)"
    by (simp add: router_get_reports_def)
next
  assume a: "snd (getAccessToken w c) = Inr atok
        \<and> snd (getReportDetails w c atok (ex_query rq ''reportId'') (ex_query rq ''workspaceId''))
            = Inr (JObj rf)
        \<and> snd (generateEmbedToken w c atok (ex_query rq ''reportId'') (ex_query rq ''workspaceId''))
            = Inr (JObj tf)"
  obtain c1 where "getAccessToken w c = (c1, Inr atok)"
    using a by (cases "getAccessToken w c") simp
  with a have "snd (getEmbedConfig w c (ex_query rq ''reportId'') (ex_query rq ''workspaceId'')) =
          Inr (JObj [(''type'', JStr ''report''),
                     (''id'', lookup_field rf ''id''),
                     (''embedUrl'', lookup_field rf ''embedUrl''),
                     (''accessToken'', lookup_field tf ''token''),
                     (''tokenId'', lookup_field tf ''tokenId''),
                     (''expiration'', lookup_field tf ''expiration''),
                     (''settings'', default_settings)])"
    by (simp add: getEmbedConfig_def Let_def embedConfig_objects del: lookup_field.simps)
  then show "fst (router_get_config w c (rq\<lparr>ex_authorization := None\<rparr>)) =
            \<lparr>ex_status = 200,
             ex_json = success_envelope w
               (JObj [(''type'', JStr ''report''),
                      (''id'', lookup_field rf ''id''),
                      (''embedUrl'', lookup_field rf ''embedUrl''),
                      (''accessToken'', lookup_field tf ''token''),
                      (''tokenId'', lookup_field tf ''tokenId''),
                      (''expiration'', lookup_field tf ''expiration''),
                      (''settings'', default_settings)])\<rparr>"
    by (cases "getEmbedConfig w c (ex_query rq ''reportId'') (ex_query rq ''workspaceId'')")
       (simp add: router_get_config_def Let_def del: lookup_field.simps)
qed

theorem route_style_ignores_authorization_witness:
  "fst (router_get_config demo_world demo_config (demo_express_request\<lparr>ex_authorization := None\<rparr>)) =
     \<lparr>ex_status = 200, ex_json = success_envelope demo_world demo_embed_config\<rparr>"
proof -
  have q: "ex_query demo_express_request ''reportId'' = None"
    "ex_query demo_express_request ''workspaceId'' = None"
    by (simp_all add: demo_express_request_def)
  show ?thesis
    using route_style_ignores_authorization [where w = demo_world and c = demo_config and rq = demo_express_request
        and atok = "''aad''"
        and rf = "[(''id'', JStr ''r1''), (''embedUrl'', JStr ''https://x''), (''datasetId'', JStr ''d1'')]"
        and tf = "[(''token'', JStr ''t1''), (''tokenId'', JStr ''k1''),
                   (''expiration'', JStr ''2099-01-01T00:00:00Z'')]"]
      demo_access demo_route_report demo_route_mint q
    by (simp add: demo_report_def demo_token_def demo_embed_config_def)
qed

section \<open>C3: a mint response that lacks a field\<close>

text \<open>
  The validation of the second function-style variant accepts exactly the objects whose
  \<^verbatim>\<open>token\<close>, \<^verbatim>\<open>tokenId\<close> and \<^verbatim>\<open>expiration\<close> are strings, and rejects a response
  that lacks \<^verbatim>\<open>tokenId\<close>.
\<close>

lemma validate_accepts_iff:
  "(\<exists>v. validate_embed_token_data d = Inr v) \<longleftrightarrow>
     (\<exists>fs a b c. d = JObj fs \<and> lookup_field fs ''token'' = JStr a
        \<and> lookup_field fs ''tokenId'' = JStr b \<and> lookup_field fs ''expiration'' = JStr c)"
proof (cases d)
  case (JObj fs)
  have s: "is_string v \<longleftrightarrow> (\<exists>a. v = JStr a)" for v by (cases v) auto
  show ?thesis
    by (auto simp: JObj validate_embed_token_data_def s simp del: lookup_field.simps)
qed (auto simp: validate_embed_token_data_def)

lemma validate_rejects_missing_tokenId:
  "validate_embed_token_data
     (JObj [(''token'', JStr ''t1''), (''expiration'', JStr ''2099-01-01T00:00:00Z'')]) =
   Inl (Error (''Power BI embed token response is missing expected '' @ [CHR 0x22] @ ''token''
                 @ [CHR 0x22] @ '', '' @ [CHR 0x22] @ ''tokenId'' @ [CHR 0x22] @ '', or ''
                 @ [CHR 0x22] @ ''expiration'' @ [CHR 0x22] @ '' properties''))"
  by (simp add: validate_embed_token_data_def)

text \<open>
  Claim C3. The claim asks that a mint response lacking \<^verbatim>\<open>token\<close>, \<^verbatim>\<open>tokenId\<close> or
  \<^verbatim>\<open>expiration\<close> makes the mint fail and never reaches a success envelope. When Power BI
  answers the mint with status 200 and the body
  \<^verbatim>\<open>{token:"t1", expiration:"2099-01-01T00:00:00Z"}\<close>, the function-style handler and
  GET /api/embed/config both answer 200 with a success envelope whose configuration has an
  undefined \<^verbatim>\<open>tokenId\<close>: neither mint validates the parsed response.
\<close>

theorem mint_response_not_validated:
  "fst (serve partial_mint_world demo_env demo_request) =
     \<lparr>resp_status = 200, resp_headers = json_headers,
      resp_body = Some (JObj [(''success'', JBool True),
        (''data'', JObj [(''type'', JStr ''report''), (''id'', JStr ''r1''),
                         (''embedUrl'', JStr ''https://x''), (''accessToken'', JStr ''t1''),
                         (''tokenId'', JUndefined),
                         (''expiration'', JStr ''2099-01-01T00:00:00Z''),
                         (''settings'', default_settings)]),
        (''timestamp'', JStr ''2026-01-01T00:00:00.000Z'')])\<rparr>
   \<and> fst (router_get_config partial_mint_world demo_config demo_express_request) =
     \<lparr>ex_status = 200,
      ex_json = JObj [(''success'', JBool True),
        (''data'', JObj [(''type'', JStr ''report''), (''id'', JStr ''r1''),
                         (''embedUrl'', JStr ''https://x''), (''accessToken'', JStr ''t1''),
                         (''tokenId'', JUndefined),
                         (''expiration'', JStr ''2099-01-01T00:00:00Z''),
                         (''settings'', default_settings)]),
        (''timestamp'', JStr ''2026-01-01T00:00:00.000Z'')]\<rparr>"
proof
  show "fst (serve partial_mint_world demo_env demo_request) =
     \<lparr>resp_status = 200, resp_headers = json_headers,
      resp_body = Some (JObj [(''success'', JBool True),
        (''data'', JObj [(''type'', JStr ''report''), (''id'', JStr ''r1''),
                         (''embedUrl'', JStr ''https://x''), (''accessToken'', JStr ''t1''),
                         (''tokenId'', JUndefined),
                         (''expiration'', JStr ''2099-01-01T00:00:00Z''),
                         (''settings'', default_settings)]),
        (''timestamp'', JStr ''2026-01-01T00:00:00.000Z'')])\<rparr>"
    by (simp add: serve_def demo_request_def try_block_def verifySupabaseJWT_def demo_env_def
      demo_world_def partial_mint_world_def getAzureAccessToken_def assemble_def
      getPowerBIReportDetails_def generatePowerBIEmbedToken_def json_response_def ok_def
      embedConfig_def demo_report_def requestBody_def success_envelope_def Let_def)
  show "fst (router_get_config partial_mint_world demo_config demo_express_request) =
     \<lparr>ex_status = 200,
      ex_json = JObj [(''success'', JBool True),
        (''data'', JObj [(''type'', JStr ''report''), (''id'', JStr ''r1''),
                         (''embedUrl'', JStr ''https://x''), (''accessToken'', JStr ''t1''),
                         (''tokenId'', JUndefined),
                         (''expiration'', JStr ''2099-01-01T00:00:00Z''),
                         (''settings'', default_settings)]),
        (''timestamp'', JStr ''2026-01-01T00:00:00.000Z'')]\<rparr>"
    by (simp add: router_get_config_def getEmbedConfig_def getAccessToken_def generateEmbedToken_def
      getReportDetails_def demo_world_def partial_mint_world_def demo_config_def load_config_def
      demo_env_def demo_express_request_def Let_def json_response_def ok_def embedConfig_def
      demo_report_def success_envelope_def)
qed

section \<open>C4: the assembled configuration\<close>

text \<open>
  Claim C4. When the report-metadata fetch returns the object \<open>JObj rf\<close> and the embed-token
  mint returns the object \<open>JObj tf\<close>, the assembled configuration is exactly the object with
  the keys type, id, embedUrl, accessToken, tokenId, expiration and settings, in that order:
  type is \<^verbatim>\<open>report\<close>, id and embedUrl are read from the report, accessToken, tokenId and
  expiration from the token data, and settings is the default settings object. This holds
  for the assembly of the function-style broker and for \<^verbatim>\<open>getEmbedConfig\<close> of the route-style
  broker. At the report \<^verbatim>\<open>{id:"r1", embedUrl:"https://x", datasetId:"d1"}\<close> and the token
  data \<^verbatim>\<open>{token:"t1", tokenId:"k1", expiration:"2099-01-01T00:00:00Z"}\<close> this is the payload of
  the claim.
\<close>

theorem assemble_merges_exactly:
  "(snd (getPowerBIReportDetails w env tok ws rid) = Inr (JObj rf)
      \<and> snd (generatePowerBIEmbedToken w env tok ws rid uid) = Inr (JObj tf)
    \<longrightarrow> snd (assemble w env tok ws rid uid) =
          Inr (JObj [(''type'', JStr ''report''),
                     (''id'', lookup_field rf ''id''),
                     (''embedUrl'', lookup_field rf ''embedUrl''),
                     (''accessToken'', lookup_field tf ''token''),
                     (''tokenId'', lookup_field tf ''tokenId''),
                     (''expiration'', lookup_field tf ''expiration''),
                     (''settings'', default_settings)]))
   \<and> (snd (getAccessToken w cfg) = Inr atok
      \<and> snd (getReportDetails w cfg atok r g) = Inr (JObj rf)
      \<and> snd (generateEmbedToken w cfg atok r g) = Inr (JObj tf)
    \<longrightarrow> snd (getEmbedConfig w cfg r g) =
          Inr (JObj [(''type'', JStr ''report''),
                     (''id'', lookup_field rf ''id''),
                     (''embedUrl'', lookup_field rf ''embedUrl''),
                     (''accessToken'', lookup_field tf ''token''),
                     (''tokenId'', lookup_field tf ''tokenId''),
                     (''expiration'', lookup_field tf ''expiration''),
                     (''settings'', default_settings)]))"
proof (intro conjI impI)
  assume "snd (getPowerBIReportDetails w env tok ws rid) = Inr (JObj rf)
      \<and> snd (generatePowerBIEmbedToken w env tok ws rid uid) = Inr (JObj tf)"
  then show "snd (assemble w env tok ws rid uid) =
          Inr (JObj [(''type'', JStr ''report''),
                     (''id'', lookup_field rf ''id''),
                     (''embedUrl'', lookup_field rf ''embedUrl''),
                     (''accessToken'', lookup_field tf ''token''),
                     (''tokenId'', lookup_field tf ''tokenId''),
                     (''expiration'', lookup_field tf ''expiration''),
                     (''settings'', default_settings)])"
    by (simp add: assemble_def Let_def embedConfig_objects del: lookup_field.simps)
next
  assume a: "snd (getAccessToken w cfg) = Inr atok
      \<and> snd (getReportDetails w cfg atok r g) = Inr (JObj rf)
      \<and> snd (generateEmbedToken w cfg atok r g) = Inr (JObj tf)"
  obtain c1 where "getAccessToken w cfg = (c1, Inr atok)"
    using a by (cases "getAccessToken w cfg") simp
  with a show "snd (getEmbedConfig w cfg r g) =
          Inr (JObj [(''type'', JStr ''report''),
                     (''id'', lookup_field rf ''id''),
                     (''embedUrl'', lookup_field rf ''embedUrl''),
                     (''accessToken'', lookup_field tf ''token''),
                     (''tokenId'', lookup_field tf ''tokenId''),
                     (''expiration'', lookup_field tf ''expiration''),
                     (''settings'', default_settings)])"
    by (simp add: getEmbedConfig_def Let_def embedConfig_objects del: lookup_field.simps)
qed

theorem assemble_merges_exactly_witness:
  "snd (assemble demo_world demo_env (JStr ''aad'') ''w1'' ''r1'' (JStr ''u1'')) =
     Inr (JObj [(''type'', JStr ''report''), (''id'', JStr ''r1''), (''embedUrl'', JStr ''https://x''),
                (''accessToken'', JStr ''t1''), (''tokenId'', JStr ''k1''),
                (''expiration'', JStr ''2099-01-01T00:00:00Z''),
                (''settings'',
                 JObj [(''panes'', JObj [(''filters'', JObj [(''expanded'', JBool False),
                                                              (''visible'', JBool True)]),
                                         (''pageNavigation'', JObj [(''visible'', JBool True)])]),
                       (''bars'', JObj [(''statusBar'', JObj [(''visible'', JBool True)])])])])
   \<and> snd (getEmbedConfig demo_world demo_config None None) =
     Inr (JObj [(''type'', JStr ''report''), (''id'', JStr ''r1''), (''embedUrl'', JStr ''https://x''),
                (''accessToken'', JStr ''t1''), (''tokenId'', JStr ''k1''),
                (''expiration'', JStr ''2099-01-01T00:00:00Z''),
                (''settings'',
                 JObj [(''panes'', JObj [(''filters'', JObj [(''expanded'', JBool False),
                                                              (''visible'', JBool True)]),
                                         (''pageNavigation'', JObj [(''visible'', JBool True)])]),
                       (''bars'', JObj [(''statusBar'', JObj [(''visible'', JBool True)])])])])"
  using assemble_merges_exactly [of demo_world demo_env "JStr ''aad''" "''w1''" "''r1''"
      "[(''id'', JStr ''r1''), (''embedUrl'', JStr ''https://x''), (''datasetId'', JStr ''d1'')]"
      "JStr ''u1''"
      "[(''token'', JStr ''t1''), (''tokenId'', JStr ''k1''),
        (''expiration'', JStr ''2099-01-01T00:00:00Z'')]"
      demo_config "''aad''" None None]
    demo_report_details demo_mint demo_access demo_route_report demo_route_mint
  by (simp add: demo_report_def demo_token_def default_settings_def)

section \<open>C5: the verification strategy of the function-style broker\<close>

text \<open>
  Claim C5, as amended. For a header that starts with \<^verbatim>\<open>Bearer \<close>, a configured secret and
  a secret that decodes, \<^verbatim>\<open>verifySupabaseJWT\<close> hands the session token to \<^verbatim>\<open>verify\<close> under up
  to three encodings of the secret, in the fixed order string, decoded bytes, imported key:
  the keys tried are a non-empty prefix of that list, every attempt but the last failed, an
  accepted token was verified by the last key tried, and a token is rejected, with
  \<^verbatim>\<open>Invalid or expired token\<close>, only after every key of the list failed.
\<close>

theorem verification_tries_each_encoding:
  assumes "\<not> falsy h" and "startsWith (interpolate h) ''Bearer ''"
    and "env ''_SUPABASE_JWT_SECRET'' = Some s" and "s \<noteq> []"
    and "b64_decode w s = Inr raw"
  shows "fst (verifySupabaseJWT w env h) \<noteq> []
     \<and> fst (verifySupabaseJWT w env h)
          = take (length (fst (verifySupabaseJWT w env h))) (candidate_keys w s raw)
     \<and> (\<forall>k \<in> set (butlast (fst (verifySupabaseJWT w env h))).
           \<exists>e. jwt_verify w (bearer_token h) k = Inl e)
     \<and> (\<forall>p. snd (verifySupabaseJWT w env h) = Inr p
           \<longrightarrow> jwt_verify w (bearer_token h) (last (fst (verifySupabaseJWT w env h))) = Inr p)
     \<and> (\<forall>e. snd (verifySupabaseJWT w env h) = Inl e
           \<longrightarrow> e = Error ''Invalid or expired token''
               \<and> fst (verifySupabaseJWT w env h) = candidate_keys w s raw
               \<and> (\<forall>k \<in> set (candidate_keys w s raw). \<exists>e'. jwt_verify w (bearer_token h) k = Inl e'))"
  using assms
  by (auto simp: verifySupabaseJWT_def candidate_keys_def bearer_token_def Let_def split: sum.splits)

text \<open>
  The claim as stated fails: the session token \<^verbatim>\<open>good\<close>, which verifies under the imported
  key only, is accepted after verification was applied three times, under three encodings
  of the secret.
\<close>

theorem verification_tries_each_encoding_counterexample:
  "fst (verifySupabaseJWT demo_world demo_env (Some ''Bearer good'')) =
     [KeyString ''c2VjcmV0'', KeyBytes [115, 101, 99, 114, 101, 116],
      KeyCrypto [115, 101, 99, 114, 101, 116]]
   \<and> snd (verifySupabaseJWT demo_world demo_env (Some ''Bearer good'')) =
     Inr [(''sub'', JStr ''u1''), (''email'', JStr ''u1@example.org'')]
   \<and> length (fst (verifySupabaseJWT demo_world demo_env (Some ''Bearer good''))) \<noteq> 1"
  by (simp add: demo_verified)

theorem verification_tries_each_encoding_witness:
  "fst (verifySupabaseJWT demo_world demo_env (Some ''Bearer good'')) \<noteq> []
   \<and> fst (verifySupabaseJWT demo_world demo_env (Some ''Bearer good''))
       = candidate_keys demo_world ''c2VjcmV0'' [115, 101, 99, 114, 101, 116]
   \<and> jwt_verify demo_world ''good'' (KeyCrypto [115, 101, 99, 114, 101, 116])
       = Inr [(''sub'', JStr ''u1''), (''email'', JStr ''u1@example.org'')]
   \<and> (\<exists>e. jwt_verify demo_world ''good'' (KeyString ''c2VjcmV0'') = Inl e)
   \<and> (\<exists>e. jwt_verify demo_world ''good'' (KeyBytes [115, 101, 99, 114, 101, 116]) = Inl e)
   \<and> snd (verifySupabaseJWT demo_world demo_env (Some ''Bearer forged''))
       = Inl (Error ''Invalid or expired token'')
   \<and> fst (verifySupabaseJWT demo_world demo_env (Some ''Bearer forged''))
       = candidate_keys demo_world ''c2VjcmV0'' [115, 101, 99, 114, 101, 116]
   \<and> (\<exists>e. jwt_verify demo_world ''forged'' (KeyCrypto [115, 101, 99, 114, 101, 116]) = Inl e)"
proof -
  have 1: "\<not> falsy (Some ''Bearer good'')" "\<not> falsy (Some ''Bearer forged'')" by simp_all
  have 2: "startsWith (interpolate (Some ''Bearer good'')) ''Bearer ''"
    "startsWith (interpolate (Some ''Bearer forged'')) ''Bearer ''" by simp_all
  have 3: "demo_env ''_SUPABASE_JWT_SECRET'' = Some ''c2VjcmV0''" by (simp add: demo_env_def)
  have 4: "''c2VjcmV0'' \<noteq> []" by simp
  have 5: "b64_decode demo_world ''c2VjcmV0'' = Inr [115, 101, 99, 114, 101, 116]"
    by (simp add: demo_world_def)
  have k: "candidate_keys demo_world ''c2VjcmV0'' [115, 101, 99, 114, 101, 116] =
     [KeyString ''c2VjcmV0'', KeyBytes [115, 101, 99, 114, 101, 116],
      KeyCrypto [115, 101, 99, 114, 101, 116]]"
    by (simp add: candidate_keys_def demo_world_def)
  have t: "bearer_token (Some ''Bearer good'') = ''good''"
    "bearer_token (Some ''Bearer forged'') = ''forged''" by (simp_all add: bearer_token_def)
  note a = verification_tries_each_encoding [where h = "Some ''Bearer good''" and env = demo_env
      and s = "''c2VjcmV0''" and w = demo_world and raw = "[115, 101, 99, 114, 101, 116]",
      OF 1(1) 2(1) 3 4 5]
  note b = verification_tries_each_encoding [where h = "Some ''Bearer forged''" and env = demo_env
      and s = "''c2VjcmV0''" and w = demo_world and raw = "[115, 101, 99, 114, 101, 116]",
      OF 1(2) 2(2) 3 4 5]
  from a have "fst (verifySupabaseJWT demo_world demo_env (Some ''Bearer good'')) \<noteq> []
   \<and> fst (verifySupabaseJWT demo_world demo_env (Some ''Bearer good''))
       = candidate_keys demo_world ''c2VjcmV0'' [115, 101, 99, 114, 101, 116]
   \<and> jwt_verify demo_world ''good'' (KeyCrypto [115, 101, 99, 114, 101, 116])
       = Inr [(''sub'', JStr ''u1''), (''email'', JStr ''u1@example.org'')]
   \<and> (\<exists>e. jwt_verify demo_world ''good'' (KeyString ''c2VjcmV0'') = Inl e)
   \<and> (\<exists>e. jwt_verify demo_world ''good'' (KeyBytes [115, 101, 99, 114, 101, 116]) = Inl e)"
    by (simp add: demo_verified k t)
  moreover from b have "snd (verifySupabaseJWT demo_world demo_env (Some ''Bearer forged''))
       = Inl (Error ''Invalid or expired token'')
   \<and> fst (verifySupabaseJWT demo_world demo_env (Some ''Bearer forged''))
       = candidate_keys demo_world ''c2VjcmV0'' [115, 101, 99, 114, 101, 116]
   \<and> (\<exists>e. jwt_verify demo_world ''forged'' (KeyCrypto [115, 101, 99, 114, 101, 116]) = Inl e)"
    by (simp add: demo_rejected_token k t)
  ultimately show ?thesis by blast
qed

section \<open>C6: a rejected grant, and the order of the steps\<close>

text \<open>
  Claim C6, as amended. In the function-style broker, when the caller is authenticated, the
  ids are configured and the token endpoint answers the grant with a non-success response
  whose text does not contain \<^verbatim>\<open>Missing\<close>, the endpoint answers with the error envelope
  carrying \<^verbatim>\<open>Failed to acquire Azure AD token: <status> <text>\<close> and with status 500, or 401
  when that text contains \<^verbatim>\<open>Invalid or expired token\<close>; the grant is the only upstream call.
  The steps are strictly ordered: a failed authentication or a failed configuration check
  issues no upstream call, a failed token acquisition issues at most the grant call, and the
  calls of any request are none, the grant alone, or the grant followed by the report fetch
  and the mint.
\<close>

theorem grant_failure_stops_pipeline:
  "(req_method req \<noteq> ''OPTIONS''
      \<and> snd (verifySupabaseJWT w env (Some (or_default (req_authorization req) []))) = Inr payload
      \<and> \<not> falsy (env ''POWERBI_WORKSPACE_ID'') \<and> \<not> falsy (env ''POWERBI_REPORT_ID'')
      \<and> fst (getAzureAccessToken w env) = [GrantCall url body]
      \<and> fetch_grant w url body = Inr gr \<and> \<not> ok gr
      \<and> \<not> js_includes (text_body gr) ''Missing''
    \<longrightarrow> resp_status (fst (serve w env req))
            = (if js_includes (text_body gr) ''Invalid or expired token'' then 401 else 500)
        \<and> resp_body (fst (serve w env req)) =
            Some (error_envelope w (Error (''Failed to acquire Azure AD token: ''
                    @ show_nat (status gr) @ '' '' @ text_body gr)))
        \<and> snd (serve w env req) = [GrantCall url body])
   \<and> (snd (verifySupabaseJWT w env (Some (or_default (req_authorization req) []))) = Inl e
    \<longrightarrow> snd (serve w env req) = [])
   \<and> (snd (verifySupabaseJWT w env (Some (or_default (req_authorization req) []))) = Inr payload
      \<and> (falsy (env ''POWERBI_WORKSPACE_ID'') \<or> falsy (env ''POWERBI_REPORT_ID''))
    \<longrightarrow> snd (serve w env req) = [])
   \<and> (snd (verifySupabaseJWT w env (Some (or_default (req_authorization req) []))) = Inr payload
      \<and> \<not> falsy (env ''POWERBI_WORKSPACE_ID'') \<and> \<not> falsy (env ''POWERBI_REPORT_ID'')
      \<and> snd (getAzureAccessToken w env) = Inl e
    \<longrightarrow> map kind_of (snd (serve w env req)) \<in> {[], [Grant]})
   \<and> map kind_of (snd (serve w env req)) \<in> {[], [Grant], [Grant, ReportFetch, Mint]}"
proof (intro conjI impI)
  assume a: "req_method req \<noteq> ''OPTIONS''
      \<and> snd (verifySupabaseJWT w env (Some (or_default (req_authorization req) []))) = Inr payload
      \<and> \<not> falsy (env ''POWERBI_WORKSPACE_ID'') \<and> \<not> falsy (env ''POWERBI_REPORT_ID'')
      \<and> fst (getAzureAccessToken w env) = [GrantCall url body]
      \<and> fetch_grant w url body = Inr gr \<and> \<not> ok gr
      \<and> \<not> js_includes (text_body gr) ''Missing''"
  let ?e = "Error (''Failed to acquire Azure AD token: '' @ show_nat (status gr) @ '' '' @ text_body gr)"
  from a have g: "snd (getAzureAccessToken w env) = Inl ?e"
    using grant_rejected by blast
  from a g have t: "try_block w env req = ([GrantCall url body], Inl ?e)"
    using try_block_grant_failure [of w env req payload ?e] by simp
  from a t have s: "fst (serve w env req) =
           \<lparr>resp_status = statusCode (message ?e), resp_headers = json_headers,
            resp_body = Some (error_envelope w ?e)\<rparr>"
    using serve_error [of req w env ?e] by simp
  from a have st: "statusCode (message ?e)
      = (if js_includes (text_body gr) ''Invalid or expired token'' then 401 else 500)"
    using grant_failure_status [of "text_body gr" "status gr"] by simp
  show "resp_status (fst (serve w env req))
            = (if js_includes (text_body gr) ''Invalid or expired token'' then 401 else 500)"
    using s st by simp
  show "resp_body (fst (serve w env req)) = Some (error_envelope w ?e)"
    using s by simp
  show "snd (serve w env req) = [GrantCall url body]"
    using a t by (simp add: serve_calls)
next
  assume "snd (verifySupabaseJWT w env (Some (or_default (req_authorization req) []))) = Inl e"
  then show "snd (serve w env req) = []"
    by (simp add: serve_calls try_block_auth_failure)
next
  assume "snd (verifySupabaseJWT w env (Some (or_default (req_authorization req) []))) = Inr payload
      \<and> (falsy (env ''POWERBI_WORKSPACE_ID'') \<or> falsy (env ''POWERBI_REPORT_ID''))"
  then show "snd (serve w env req) = []"
    using try_block_config_failure [of w env req payload] by (auto simp: serve_calls)
next
  assume a: "snd (verifySupabaseJWT w env (Some (or_default (req_authorization req) []))) = Inr payload
      \<and> \<not> falsy (env ''POWERBI_WORKSPACE_ID'') \<and> \<not> falsy (env ''POWERBI_REPORT_ID'')
      \<and> snd (getAzureAccessToken w env) = Inl e"
  then have "try_block w env req = (fst (getAzureAccessToken w env), Inl e)"
    using try_block_grant_failure [of w env req payload e] by simp
  then show "map kind_of (snd (serve w env req)) \<in> {[], [Grant]}"
    using getAzureAccessToken_calls [of w env] by (auto simp: serve_calls)
next
  show "map kind_of (snd (serve w env req)) \<in> {[], [Grant], [Grant, ReportFetch, Mint]}"
    using try_block_kinds [of w env req] by (simp add: serve_calls)
qed

text \<open>
  The claim as stated fails when the text of the rejected grant contains \<^verbatim>\<open>Missing\<close>: the
  status is then 400, neither 401 nor 500.
\<close>

theorem grant_failure_stops_pipeline_counterexample:
  "resp_status (fst (serve (rejected_grant_world ''Missing client credentials'') demo_env demo_request)) = 400
   \<and> snd (serve (rejected_grant_world ''Missing client credentials'') demo_env demo_request) =
       [GrantCall ''https://login.microsoftonline.com/tenant/oauth2/v2.0/token''
         [(''client_id'', ''client''), (''client_secret'', ''hunter2''),
          (''scope'', ''https://analysis.windows.net/powerbi/api/.default''),
          (''grant_type'', ''client_credentials'')]]"
  by (simp add: serve_def demo_request_def try_block_def verifySupabaseJWT_def demo_env_def
      demo_world_def rejected_grant_world_def getAzureAccessToken_def ok_def Let_def statusCode_def
      show_nat.simps)

theorem grant_failure_stops_pipeline_witness:
  "resp_status (fst (serve (rejected_grant_world ''invalid_client'') demo_env demo_request)) = 500
   \<and> resp_body (fst (serve (rejected_grant_world ''invalid_client'') demo_env demo_request)) =
       Some (error_envelope (rejected_grant_world ''invalid_client'')
               (Error ''Failed to acquire Azure AD token: 400 invalid_client''))
   \<and> snd (serve (rejected_grant_world ''invalid_client'') demo_env demo_request) =
       [GrantCall ''https://login.microsoftonline.com/tenant/oauth2/v2.0/token''
         [(''client_id'', ''client''), (''client_secret'', ''hunter2''),
          (''scope'', ''https://analysis.windows.net/powerbi/api/.default''),
          (''grant_type'', ''client_credentials'')]]
   \<and> snd (serve demo_world demo_env
            \<lparr>req_method = ''POST'', req_authorization = Some ''Bearer forged''\<rparr>) = []
   \<and> snd (serve demo_world no_ids_env demo_request) = []
   \<and> map kind_of (snd (serve (rejected_grant_world ''invalid_client'') demo_env demo_request))
        \<in> {[], [Grant]}"
proof -
  let ?w = "rejected_grant_world ''invalid_client''"
  let ?url = "''https://login.microsoftonline.com/tenant/oauth2/v2.0/token''"
  let ?body = "[(''client_id'', ''client''), (''client_secret'', ''hunter2''),
          (''scope'', ''https://analysis.windows.net/powerbi/api/.default''),
          (''grant_type'', ''client_credentials'')]"
  let ?gr = "\<lparr>status = 400, text_body = ''invalid_client'',
              json_body = Inl (Error ''Unexpected token'')\<rparr>"
  let ?payload = "[(''sub'', JStr ''u1''), (''email'', JStr ''u1@example.org'')]"
  let ?forged = "\<lparr>req_method = ''POST'', req_authorization = Some ''Bearer forged''\<rparr>"
  have m: "req_method demo_request \<noteq> ''OPTIONS''" by (simp add: demo_request_def)
  have v: "snd (verifySupabaseJWT ?w demo_env (Some (or_default (req_authorization demo_request) [])))
             = Inr ?payload"
    by (simp add: demo_request_def rejected_grant_world_verified)
  have ids: "\<not> falsy (demo_env ''POWERBI_WORKSPACE_ID'')" "\<not> falsy (demo_env ''POWERBI_REPORT_ID'')"
    by (simp_all add: demo_env_def)
  have c: "fst (getAzureAccessToken ?w demo_env) = [GrantCall ?url ?body]"
    by (rule rejected_grant_world_calls)
  have f: "fetch_grant ?w ?url ?body = Inr ?gr"
    by (simp add: rejected_grant_world_def)
  have nok: "\<not> ok ?gr" by (simp add: ok_def)
  have nm: "\<not> js_includes (text_body ?gr) ''Missing''" by simp
  have ni: "\<not> js_includes (text_body ?gr) ''Invalid or expired token''" by simp
  have sn: "show_nat 400 = ''400''" by (simp add: show_nat.simps)
  have g: "snd (getAzureAccessToken ?w demo_env) =
             Inl (Error ''Failed to acquire Azure AD token: 400 invalid_client'')"
    using grant_rejected [OF c f nok] sn by simp
  have vf: "snd (verifySupabaseJWT demo_world demo_env (Some (or_default (req_authorization ?forged) [])))
              = Inl (Error ''Invalid or expired token'')"
    by (simp add: demo_rejected_token)
  have vn: "snd (verifySupabaseJWT demo_world no_ids_env
                   (Some (or_default (req_authorization demo_request) []))) = Inr ?payload"
    by (simp add: demo_request_def demo_verified_no_ids)
  have nid: "falsy (no_ids_env ''POWERBI_WORKSPACE_ID'')" by (simp add: no_ids_env_def)
  note a = grant_failure_stops_pipeline [where req = demo_request and w = ?w and env = demo_env
      and payload = ?payload and url = ?url and body = ?body and gr = ?gr
      and e = "Error ''Failed to acquire Azure AD token: 400 invalid_client''"]
  note b = grant_failure_stops_pipeline [where req = ?forged and w = demo_world and env = demo_env
      and e = "Error ''Invalid or expired token''"]
  note d = grant_failure_stops_pipeline [where req = demo_request and w = demo_world
      and env = no_ids_env and payload = ?payload]
  have 1: "resp_status (fst (serve ?w demo_env demo_request)) = 500
      \<and> resp_body (fst (serve ?w demo_env demo_request)) =
            Some (error_envelope ?w (Error ''Failed to acquire Azure AD token: 400 invalid_client''))
      \<and> snd (serve ?w demo_env demo_request) = [GrantCall ?url ?body]"
    using a m v ids c f nok nm ni sn by simp
  have 2: "snd (serve demo_world demo_env ?forged) = []"
    using b vf by blast
  have 3: "snd (serve demo_world no_ids_env demo_request) = []"
    using d vn nid by blast
  have 4: "map kind_of (snd (serve ?w demo_env demo_request)) \<in> {[], [Grant]}"
    using a v ids g by blast
  from 1 2 3 4 show ?thesis by blast
qed

section \<open>C8: the body of the mint request\<close>

text \<open>
  Claim C8. A mint of the function-style broker issues exactly one request. When a user
  identity is supplied (a truthy \<^verbatim>\<open>userId\<close>, as the source tests it), its body is
  accessLevel View, allowSaveAs false and an identities array with the single entry
  \<^verbatim>\<open>{username: userId, roles: [], datasets: []}\<close>; when none is supplied the body has the two
  fields accessLevel and allowSaveAs only. The mint of the route-style broker takes no user
  identity, and every request it issues has the two-field body.
\<close>

theorem mint_request_body_identities:
  "(truthy userId \<longrightarrow>
      map call_body (fst (generatePowerBIEmbedToken w env tok ws rid userId)) =
        [Some (JObj [(''accessLevel'', JStr ''View''), (''allowSaveAs'', JBool False),
                     (''identities'', JArr [JObj [(''username'', userId), (''roles'', JArr []),
                                                    (''datasets'', JArr [])]])])])
   \<and> (\<not> truthy userId \<longrightarrow>
      map call_body (fst (generatePowerBIEmbedToken w env tok ws rid userId)) =
        [Some (JObj [(''accessLevel'', JStr ''View''), (''allowSaveAs'', JBool False)])])
   \<and> set (map call_body (fst (generateEmbedToken w cfg atok r g)))
        \<subseteq> {Some (JObj [(''accessLevel'', JStr ''View''), (''allowSaveAs'', JBool False)])}"
  by (simp add: generatePowerBIEmbedToken_def requestBody_def generateEmbedToken_def Let_def)

theorem mint_request_body_identities_witness:
  "truthy (JStr ''u1'')
   \<and> map call_body (fst (generatePowerBIEmbedToken demo_world demo_env (JStr ''aad'') ''w1'' ''r1''
                              (JStr ''u1''))) =
        [Some (JObj [(''accessLevel'', JStr ''View''), (''allowSaveAs'', JBool False),
                     (''identities'', JArr [JObj [(''username'', JStr ''u1''), (''roles'', JArr []),
                                                    (''datasets'', JArr [])]])])]
   \<and> \<not> truthy JUndefined
   \<and> map call_body (fst (generatePowerBIEmbedToken demo_world demo_env (JStr ''aad'') ''w1'' ''r1''
                              JUndefined)) =
        [Some (JObj [(''accessLevel'', JStr ''View''), (''allowSaveAs'', JBool False)])]
   \<and> map call_body (fst (generateEmbedToken demo_world demo_config ''aad'' None None)) =
        [Some (JObj [(''accessLevel'', JStr ''View''), (''allowSaveAs'', JBool False)])]"
proof -
  have route: "map call_body (fst (generateEmbedToken demo_world demo_config ''aad'' None None)) =
        [Some (JObj [(''accessLevel'', JStr ''View''), (''allowSaveAs'', JBool False)])]"
    by (simp add: generateEmbedToken_def demo_config_def load_config_def demo_env_def Let_def)
  show ?thesis
    using mint_request_body_identities [of "JStr ''u1''" demo_world demo_env "JStr ''aad''" "''w1''"
        "''r1''" demo_config "''aad''" None None]
      mint_request_body_identities [of JUndefined demo_world demo_env "JStr ''aad''" "''w1''"
        "''r1''" demo_config "''aad''" None None]
      route
    by simp
qed

section \<open>C9: absent workspace or report id\<close>

lemma serve_missing_ids:
  assumes "req_method req \<noteq> ''OPTIONS''"
    and "snd (verifySupabaseJWT w env (Some (or_default (req_authorization req) []))) = Inr payload"
    and "falsy (env ''POWERBI_WORKSPACE_ID'') \<or> falsy (env ''POWERBI_REPORT_ID'')"
  shows "serve w env req =
           (\<lparr>resp_status = 400, resp_headers = json_headers,
             resp_body = Some (error_envelope w
                (Error ''Missing Power BI workspace or report configuration''))\<rparr>, [])"
proof -
  have "try_block w env req = ([], Inl (Error ''Missing Power BI workspace or report configuration''))"
    using assms(2,3) by (auto simp: try_block_def Let_def)
  moreover have "statusCode ''Missing Power BI workspace or report configuration'' = 400"
    by (simp add: statusCode_def)
  ultimately show ?thesis using assms(1) by (simp add: serve_def)
qed

lemma getEmbedConfig_missing_ids:
  assumes "falsy (js_or r (powerbi_reportId c)) \<or> falsy (js_or g (powerbi_workspaceId c))"
  shows "\<exists>e. snd (getEmbedConfig w c r g) = Inl e"
proof (cases "getAccessToken w c")
  case (Pair c1 res)
  show ?thesis
  proof (cases res)
    case (Inl e)
    with Pair show ?thesis by (simp add: getEmbedConfig_def)
  next
    case (Inr atok)
    have "generateEmbedToken w c atok r g = ([], Inl (Error ''Report ID and Workspace ID are required''))"
      using assms by (auto simp: generateEmbedToken_def Let_def)
    with Pair Inr show ?thesis
      by (simp add: getEmbedConfig_def Let_def promise_all2_second_fails)
  qed
qed

lemma router_get_config_error:
  assumes "snd (getEmbedConfig w c (ex_query rq ''reportId'') (ex_query rq ''workspaceId'')) = Inl e"
  shows "fst (router_get_config w c rq) = \<lparr>ex_status = 500, ex_json = error_envelope w e\<rparr>"
  using assms by (auto simp: router_get_config_def Let_def split: prod.splits sum.splits)

text \<open>
  Claim C9, as amended. In the function-style broker every authenticated request that is not
  a pre-flight and for which POWERBI_WORKSPACE_ID or POWERBI_REPORT_ID is absent (unset or
  empty) is answered with status 400, before any upstream call. In the route-style broker,
  POST /api/embed/config answers 400 when the body lacks reportId or workspaceId, before any
  upstream call, while GET /api/embed/config answers 500 when neither the query nor the
  configuration supplies both ids: its \<^verbatim>\<open>catch\<close> block maps every error to 500. The
  route-style server starts only with a workspace id configured, so on a running server
  this is the case of a report id that neither the query nor the configuration supplies.
\<close>

theorem missing_ids_status:
  "(req_method req \<noteq> ''OPTIONS''
      \<and> snd (verifySupabaseJWT w env (Some (or_default (req_authorization req) []))) = Inr payload
      \<and> (falsy (env ''POWERBI_WORKSPACE_ID'') \<or> falsy (env ''POWERBI_REPORT_ID''))
    \<longrightarrow> resp_status (fst (serve w env req)) = 400 \<and> snd (serve w env req) = [])
   \<and> (falsy (ex_body_reportId rq) \<or> falsy (ex_body_workspaceId rq)
    \<longrightarrow> ex_status (fst (router_post_config w c rq)) = 400 \<and> snd (router_post_config w c rq) = [])
   \<and> (falsy (js_or (ex_query rq ''reportId'') (powerbi_reportId c))
        \<or> falsy (js_or (ex_query rq ''workspaceId'') (powerbi_workspaceId c))
    \<longrightarrow> ex_status (fst (router_get_config w c rq)) = 500)"
proof (intro conjI impI)
  assume a: "req_method req \<noteq> ''OPTIONS''
      \<and> snd (verifySupabaseJWT w env (Some (or_default (req_authorization req) []))) = Inr payload
      \<and> (falsy (env ''POWERBI_WORKSPACE_ID'') \<or> falsy (env ''POWERBI_REPORT_ID''))"
  then have s: "serve w env req =
           (\<lparr>resp_status = 400, resp_headers = json_headers,
             resp_body = Some (error_envelope w
                (Error ''Missing Power BI workspace or report configuration''))\<rparr>, [])"
    using serve_missing_ids [of req w env payload] by blast
  show "resp_status (fst (serve w env req)) = 400" by (simp add: s)
  show "snd (serve w env req) = []" by (simp add: s)
next
  assume a: "falsy (ex_body_reportId rq) \<or> falsy (ex_body_workspaceId rq)"
  then show "ex_status (fst (router_post_config w c rq)) = 400"
    by (auto simp: router_post_config_def Let_def)
  from a show "snd (router_post_config w c rq) = []"
    by (auto simp: router_post_config_def Let_def)
next
  assume "falsy (js_or (ex_query rq ''reportId'') (powerbi_reportId c))
        \<or> falsy (js_or (ex_query rq ''workspaceId'') (powerbi_workspaceId c))"
  from getEmbedConfig_missing_ids [OF this] obtain e where
    "snd (getEmbedConfig w c (ex_query rq ''reportId'') (ex_query rq ''workspaceId'')) = Inl e"
    by blast
  from router_get_config_error [OF this]
  show "ex_status (fst (router_get_config w c rq)) = 500" by simp
qed

text \<open>
  The claim as stated fails on the route-style broker: with the workspace id configured and
  the report id supplied neither by the query nor by the configuration, a
  GET /api/embed/config request that carries a bearer credential is answered 500, not 400.
\<close>

theorem missing_ids_status_counterexample:
  "ex_status (fst (router_get_config demo_world no_report_id_config
       (demo_express_request\<lparr>ex_authorization := Some ''Bearer good''\<rparr>))) = 500
   \<and> ex_status (fst (router_get_config demo_world no_report_id_config
       (demo_express_request\<lparr>ex_authorization := Some ''Bearer good''\<rparr>))) \<noteq> 400
   \<and> powerbi_workspaceId no_report_id_config = Some ''w1''"
  by (simp add: router_get_config_def getEmbedConfig_def getAccessToken_def generateEmbedToken_def
      getReportDetails_def demo_world_def no_report_id_config_def demo_config_def load_config_def
      demo_env_def demo_express_request_def Let_def json_response_def ok_def)

theorem missing_ids_status_witness:
  "resp_status (fst (serve demo_world no_ids_env demo_request)) = 400
   \<and> snd (serve demo_world no_ids_env demo_request) = []
   \<and> ex_status (fst (router_post_config demo_world no_report_id_config
         (demo_express_request\<lparr>ex_body_reportId := Some ''r1''\<rparr>))) = 400
   \<and> snd (router_post_config demo_world no_report_id_config
         (demo_express_request\<lparr>ex_body_reportId := Some ''r1''\<rparr>)) = []
   \<and> ex_status (fst (router_get_config demo_world no_report_id_config demo_express_request)) = 500"
proof -
  let ?payload = "[(''sub'', JStr ''u1''), (''email'', JStr ''u1@example.org'')]"
  let ?post = "demo_express_request\<lparr>ex_body_reportId := Some ''r1''\<rparr>"
  have 1: "req_method demo_request \<noteq> ''OPTIONS''" by (simp add: demo_request_def)
  have 2: "snd (verifySupabaseJWT demo_world no_ids_env
              (Some (or_default (req_authorization demo_request) []))) = Inr ?payload"
    by (simp add: demo_request_def demo_verified_no_ids)
  have 3: "falsy (no_ids_env ''POWERBI_WORKSPACE_ID'')" by (simp add: no_ids_env_def)
  have 4: "falsy (ex_body_workspaceId ?post)" by (simp add: demo_express_request_def)
  have 5: "falsy (js_or (ex_query demo_express_request ''reportId'')
                    (powerbi_reportId no_report_id_config))"
    by (simp add: demo_express_request_def no_report_id_config_def)
  note a = missing_ids_status [where req = demo_request and w = demo_world and env = no_ids_env
        and payload = ?payload and rq = demo_express_request and c = no_report_id_config]
  note b = missing_ids_status [where req = demo_request and w = demo_world and env = no_ids_env
        and payload = ?payload and rq = ?post and c = no_report_id_config]
  from a 1 2 3 5 have "resp_status (fst (serve demo_world no_ids_env demo_request)) = 400
      \<and> snd (serve demo_world no_ids_env demo_request) = []
      \<and> ex_status (fst (router_get_config demo_world no_report_id_config demo_express_request)) = 500"
    by blast
  moreover from b 4 have "ex_status (fst (router_post_config demo_world no_report_id_config ?post)) = 400
      \<and> snd (router_post_config demo_world no_report_id_config ?post) = []"
    by blast
  ultimately show ?thesis by blast
qed

section \<open>C10: the expiration of the returned configuration\<close>

text \<open>
  Claim C10. Whenever a broker answers with a success envelope, the mint request it issued
  was answered by Power BI with a response whose parsed body \<open>t\<close> has the same
  \<^verbatim>\<open>expiration\<close> as the data of the envelope: the field is copied, never computed. This
  holds for the function-style handler, for GET /api/embed/config and for
  POST /api/embed/config (whose settings merge leaves the field alone).
\<close>

theorem expiration_is_upstream_expiration:
  "(resp_body (fst (serve w env req)) = Some (success_envelope w cfg) \<longrightarrow>
      (\<exists>url tk body mr t. MintCall url tk body \<in> set (snd (serve w env req))
           \<and> fetch_mint w url tk body = Inr mr \<and> json_body mr = Inr t
           \<and> get_prop cfg ''expiration'' = get_prop t ''expiration''))
   \<and> (ex_json (fst (router_get_config w c rq)) = success_envelope w cfg \<longrightarrow>
      (\<exists>url tk body mr t. MintCall url tk body \<in> set (snd (router_get_config w c rq))
           \<and> fetch_mint w url tk body = Inr mr \<and> json_body mr = Inr t
           \<and> get_prop cfg ''expiration'' = get_prop t ''expiration''))
   \<and> (ex_json (fst (router_post_config w c rq)) = success_envelope w cfg \<longrightarrow>
      (\<exists>url tk body mr t. MintCall url tk body \<in> set (snd (router_post_config w c rq))
           \<and> fetch_mint w url tk body = Inr mr \<and> json_body mr = Inr t
           \<and> get_prop cfg ''expiration'' = get_prop t ''expiration''))"
proof (intro conjI impI)
  assume "resp_body (fst (serve w env req)) = Some (success_envelope w cfg)"
  from try_block_success [OF serve_success [OF this]]
  show "\<exists>url tk body mr t. MintCall url tk body \<in> set (snd (serve w env req))
           \<and> fetch_mint w url tk body = Inr mr \<and> json_body mr = Inr t
           \<and> get_prop cfg ''expiration'' = get_prop t ''expiration''" .
next
  assume "ex_json (fst (router_get_config w c rq)) = success_envelope w cfg"
  from getEmbedConfig_success [OF router_get_config_success [OF this]]
  show "\<exists>url tk body mr t. MintCall url tk body \<in> set (snd (router_get_config w c rq))
           \<and> fetch_mint w url tk body = Inr mr \<and> json_body mr = Inr t
           \<and> get_prop cfg ''expiration'' = get_prop t ''expiration''" .
next
  assume "ex_json (fst (router_post_config w c rq)) = success_envelope w cfg"
  from router_post_config_success [OF this] obtain cfg0 where
    g: "getEmbedConfig w c (ex_body_reportId rq) (ex_body_workspaceId rq)
           = (snd (router_post_config w c rq), Inr cfg0)"
    and e: "get_prop cfg ''expiration'' = get_prop cfg0 ''expiration''"
    by blast
  from getEmbedConfig_success [OF g] e
  show "\<exists>url tk body mr t. MintCall url tk body \<in> set (snd (router_post_config w c rq))
           \<and> fetch_mint w url tk body = Inr mr \<and> json_body mr = Inr t
           \<and> get_prop cfg ''expiration'' = get_prop t ''expiration''"
    by simp
qed

theorem expiration_is_upstream_expiration_witness:
  "resp_body (fst (serve demo_world demo_env demo_request))
     = Some (success_envelope demo_world demo_embed_config)
   \<and> (\<exists>url tk body mr t. MintCall url tk body \<in> set (snd (serve demo_world demo_env demo_request))
           \<and> fetch_mint demo_world url tk body = Inr mr \<and> json_body mr = Inr t
           \<and> get_prop demo_embed_config ''expiration'' = get_prop t ''expiration'')
   \<and> ex_json (fst (router_get_config demo_world demo_config demo_express_request))
     = success_envelope demo_world demo_embed_config
   \<and> (\<exists>url tk body mr t.
           MintCall url tk body \<in> set (snd (router_get_config demo_world demo_config demo_express_request))
           \<and> fetch_mint demo_world url tk body = Inr mr \<and> json_body mr = Inr t
           \<and> get_prop demo_embed_config ''expiration'' = get_prop t ''expiration'')
   \<and> ex_json (fst (router_post_config demo_world demo_config demo_post_request))
     = success_envelope demo_world demo_merged_config
   \<and> (\<exists>url tk body mr t.
           MintCall url tk body \<in> set (snd (router_post_config demo_world demo_config demo_post_request))
           \<and> fetch_mint demo_world url tk body = Inr mr \<and> json_body mr = Inr t
           \<and> get_prop demo_merged_config ''expiration'' = get_prop t ''expiration'')"
proof -
  have 1: "resp_body (fst (serve demo_world demo_env demo_request))
     = Some (success_envelope demo_world demo_embed_config)"
    by (simp add: demo_serve)
  have 2: "ex_json (fst (router_get_config demo_world demo_config demo_express_request))
     = success_envelope demo_world demo_embed_config"
    by (simp add: demo_router_get_config)
  have 3: "ex_json (fst (router_post_config demo_world demo_config demo_post_request))
     = success_envelope demo_world demo_merged_config"
    by (simp add: demo_router_post_config)
  note a = expiration_is_upstream_expiration [where w = demo_world and env = demo_env
      and req = demo_request and cfg = demo_embed_config and c = demo_config
      and rq = demo_express_request]
  note b = expiration_is_upstream_expiration [where w = demo_world and env = demo_env
      and req = demo_request and cfg = demo_merged_config and c = demo_config
      and rq = demo_post_request]
  from a 1 2 b 3 show ?thesis by blast
qed

end
